theory Spec2Isabelle
  imports Main "HOL-Library.Word"
begin

section \<open>Data model\<close>

text \<open>
  The package calls into a hosted runtime through raw addresses. A \<open>uintptr\<close> is a
  natural number (no claim depends on pointer arithmetic wrapping around), the fixed-width
  fields of the array descriptor are words of their width, and \<open>int32\<close> is a 32-bit
  word read through \<open>sint\<close>.
\<close>

type_synonym uintptr = nat
type_synonym byte = "8 word"

text \<open>\<open>SafeArrayBound\<close> and \<open>SafeArray\<close> of safearray.go, field by field.\<close>

record SafeArrayBound =
  cElements :: "32 word"
  lLbound :: "32 word"

record SafeArray =
  cDims :: "16 word"
  fFeatures :: "16 word"
  cbElements :: "32 word"
  cLocks :: "32 word"
  pvData :: uintptr
  rgsabound :: SafeArrayBound

text \<open>
  What Go hands to a native call. A \<open>uintptr(x)\<close> of a number or of a native address is
  \<open>Val\<close>. A pointer to Go data is represented by the data it points to (\<open>InBound\<close>,
  \<open>InBytes\<close>, \<open>InIndex\<close>, \<open>InText\<close>, \<open>InGuid\<close>), and a pointer to a Go variable that
  the callee fills by the name of that variable (\<open>OutVar\<close>).
\<close>

datatype uarg =
    Val uintptr
  | OutVar string
  | InBound SafeArrayBound
  | InBytes "byte list"
  | InIndex "32 word"
  | InText string
  | InGuid string

text \<open>What the callee stored through an \<open>OutVar\<close> pointer.\<close>

datatype outval = NoOut | OutWord nat

text \<open>The value of the Go variable after the call: what the callee stored, or the zero value
  that the variable had.\<close>

fun out_ptr :: "outval \<Rightarrow> uintptr" where
  "out_ptr NoOut = 0"
| "out_ptr (OutWord p) = p"

text \<open>
  The callee of a native call: a procedure exported by a DLL (\<open>MustLoadDLL\<close> and
  \<open>MustFindProc\<close>, assumed to find what they are asked for), or a slot of the method
  table of a hosted object.
\<close>

datatype target = Proc string string | Slot string string

text \<open>
  The errors of the package. \<open>Errno\<close> is a \<open>syscall.Errno\<close> returned as it came.
  \<open>Errorf\<close> is an error built by \<open>fmt.Errorf\<close> from a fixed text and a number
  formatted into it (\<open>%x\<close>, \<open>%d\<close>). \<open>Errorf_s\<close> is an error built by \<open>fmt.Errorf\<close>
  from a fixed text and a last-error value formatted with \<open>%s\<close>: what goes into the
  error is the message text of that value, not the value. \<open>NotFound\<close> is the error of a
  search that found nothing, and \<open>Panic\<close> a run-time panic of the Go code.
\<close>

datatype error =
    Errno nat
  | Errorf string nat
  | Errorf_s string string
  | NotFound string
  | Panic string

text \<open>
  The native side of the process.
  \<^item> \<open>mem\<close>: byte-addressed memory; \<open>None\<close> is an unmapped address.
  \<^item> \<open>arrays\<close>: the array descriptors, by address.
  \<^item> \<open>brk\<close>, \<open>limit\<close>: the allocator of the array library hands out addresses from
    \<open>brk\<close> upwards and fails beyond \<open>limit\<close>.
  \<^item> \<open>refs\<close>: the reference count of the hosted object at an address.
  \<^item> \<open>com\<close>: what a method slot of a hosted object answers, as (status, out value);
    the hosted runtime is opaque, so this is an arbitrary function.
  \<^item> \<open>bstrs\<close>: the host text that the wide string at an address decodes to.
  \<^item> \<open>errnos\<close>: the last-error value that Go reads after each successive native call
    (0 once the list is used up).
  \<^item> \<open>errtext\<close>: the message text that the system has for a last-error value, which is
    what \<open>%s\<close> prints for a \<open>syscall.Errno\<close>.
  \<^item> \<open>calls\<close>: every native call made so far, in order, with its arguments.
\<close>

record world =
  mem :: "nat \<Rightarrow> byte option"
  arrays :: "nat \<Rightarrow> SafeArray option"
  brk :: nat
  limit :: nat
  refs :: "nat \<Rightarrow> 32 word"
  com :: "string \<Rightarrow> string \<Rightarrow> uarg list \<Rightarrow> nat \<times> outval"
  bstrs :: "nat \<Rightarrow> string"
  errnos :: "nat list"
  errtext :: "nat \<Rightarrow> string"
  calls :: "(target \<times> uarg list) list"

text \<open>Constants the package declares outside the files at hand, with their Windows values.\<close>

definition S_OK :: nat where
  "S_OK = 0"

definition VT_UI1 :: nat where
  "VT_UI1 = 17"

section \<open>The native procedures\<close>

text \<open>
  The procedures of OleAut32.dll and ntdll.dll are not code of the package. They are
  modelled after the documentation that safearray.go quotes for each of them. A call whose
  argument list does not have the shape of the procedure's signature is outside what the
  documentation describes; the model answers 0 and changes nothing.
\<close>

text \<open>The element kind fixes the element size in bytes (64-bit process).\<close>

definition elem_size :: "nat \<Rightarrow> nat option" where
  "elem_size vt =
     (if vt = 2 then Some 2
      else if vt = 3 then Some 4
      else if vt = 8 then Some 8
      else if vt = 9 then Some 8
      else if vt = 12 then Some 24
      else if vt = 13 then Some 8
      else if vt = 16 then Some 1
      else if vt = 17 then Some 1
      else if vt = 18 then Some 2
      else if vt = 19 then Some 4
      else None)"

text \<open>The size of the descriptor itself, with its single bound (64-bit layout).\<close>

definition desc_size :: nat where
  "desc_size = 32"

definition zero_fill :: "(nat \<Rightarrow> byte option) \<Rightarrow> nat \<Rightarrow> nat \<Rightarrow> (nat \<Rightarrow> byte option)" where
  "zero_fill m a n = (\<lambda>x. if a \<le> x \<and> x < a + n then Some 0 else m x)"

definition write_bytes :: "(nat \<Rightarrow> byte option) \<Rightarrow> nat \<Rightarrow> byte list \<Rightarrow> (nat \<Rightarrow> byte option)" where
  "write_bytes m a bs = (\<lambda>x. if a \<le> x \<and> x < a + length bs then Some (bs ! (x - a)) else m x)"

text \<open>
  \<open>SAFEARRAY * SafeArrayCreate(VARTYPE vt, UINT cDims, SAFEARRAYBOUND *rgsabound)\<close>:
  "creates a new array descriptor, allocates and initializes the data for the array, and
  returns a pointer to the new array descriptor", or NULL when it cannot. The descriptor
  of the package holds one bound, so the model builds arrays of one dimension only.
\<close>

definition os_SafeArrayCreate :: "world \<Rightarrow> nat \<Rightarrow> nat \<Rightarrow> SafeArrayBound \<Rightarrow> (nat \<times> outval) \<times> world" where
  "os_SafeArrayCreate w vt dims b =
     (case elem_size vt of
        None \<Rightarrow> ((0, NoOut), w)
      | Some cb \<Rightarrow>
          if dims \<noteq> 1 then ((0, NoOut), w)
          else if limit w < brk w + desc_size + unat (cElements b) * cb then ((0, NoOut), w)
          else
            ((brk w, NoOut),
             w\<lparr>arrays := (arrays w)(brk w \<mapsto>
                   \<lparr>cDims = 1, fFeatures = 128, cbElements = of_nat cb, cLocks = 0,
                    pvData = brk w + desc_size, rgsabound = b\<rparr>),
               mem := zero_fill (mem w) (brk w + desc_size) (unat (cElements b) * cb),
               brk := brk w + desc_size + unat (cElements b) * cb\<rparr>))"

text \<open>
  \<open>void RtlCopyMemory(void* Destination, const void* Source, size_t Length)\<close>: copies
  \<open>Length\<close> bytes from the source to the destination, whatever lies there.
\<close>

definition os_RtlCopyMemory :: "world \<Rightarrow> nat \<Rightarrow> byte list \<Rightarrow> nat \<Rightarrow> (nat \<times> outval) \<times> world" where
  "os_RtlCopyMemory w dst src n = ((0, NoOut), w\<lparr>mem := write_bytes (mem w) dst (take n src)\<rparr>)"

text \<open>\<open>UINT SafeArrayGetDim(SAFEARRAY *psa)\<close>: the number of dimensions.\<close>

definition os_SafeArrayGetDim :: "world \<Rightarrow> nat \<Rightarrow> (nat \<times> outval) \<times> world" where
  "os_SafeArrayGetDim w psa =
     (case arrays w psa of None \<Rightarrow> ((0, NoOut), w) | Some a \<Rightarrow> ((unat (cDims a), NoOut), w))"

text \<open>
  \<open>HRESULT SafeArrayLock(SAFEARRAY *psa)\<close>: "increments the lock count of an array";
  \<open>E_INVALIDARG\<close> when there is no such array.
\<close>

definition E_INVALIDARG :: nat where
  "E_INVALIDARG = 2147942487"

definition os_SafeArrayLock :: "world \<Rightarrow> nat \<Rightarrow> (nat \<times> outval) \<times> world" where
  "os_SafeArrayLock w psa =
     (case arrays w psa of
        None \<Rightarrow> ((E_INVALIDARG, NoOut), w)
      | Some a \<Rightarrow> ((0, NoOut), w\<lparr>arrays := (arrays w)(psa \<mapsto> a\<lparr>cLocks := cLocks a + 1\<rparr>)\<rparr>))"

text \<open>
  The bounds of a dimension. The descriptor of the package records one bound, so the
  model knows dimension 1 only; any other is \<open>DISP_E_BADINDEX\<close>.
  \<open>HRESULT SafeArrayGetLBound(SAFEARRAY *psa, UINT nDim, LONG *plLbound)\<close> and
  \<open>HRESULT SafeArrayGetUBound(SAFEARRAY *psa, UINT nDim, LONG *plUbound)\<close>; the upper
  bound is the lower bound plus the element count minus one, in 32 bits.
\<close>

definition DISP_E_BADINDEX :: nat where
  "DISP_E_BADINDEX = 2147614731"

definition os_SafeArrayGetLBound :: "world \<Rightarrow> nat \<Rightarrow> nat \<Rightarrow> (nat \<times> outval) \<times> world" where
  "os_SafeArrayGetLBound w psa nDim =
     (case arrays w psa of
        None \<Rightarrow> ((E_INVALIDARG, NoOut), w)
      | Some a \<Rightarrow>
          if nDim \<noteq> 1 \<or> cDims a = 0 then ((DISP_E_BADINDEX, NoOut), w)
          else ((0, OutWord (unat (lLbound (rgsabound a)))), w))"

definition os_SafeArrayGetUBound :: "world \<Rightarrow> nat \<Rightarrow> nat \<Rightarrow> (nat \<times> outval) \<times> world" where
  "os_SafeArrayGetUBound w psa nDim =
     (case arrays w psa of
        None \<Rightarrow> ((E_INVALIDARG, NoOut), w)
      | Some a \<Rightarrow>
          if nDim \<noteq> 1 \<or> cDims a = 0 then ((DISP_E_BADINDEX, NoOut), w)
          else ((0, OutWord (unat (lLbound (rgsabound a) + cElements (rgsabound a) - 1))), w))"

text \<open>The value of \<open>n\<close> bytes at an address, little-endian; an unmapped byte reads as 0.\<close>

fun read_le :: "(nat \<Rightarrow> byte option) \<Rightarrow> nat \<Rightarrow> nat \<Rightarrow> nat" where
  "read_le m a 0 = 0"
| "read_le m a (Suc n) = (case m a of None \<Rightarrow> 0 | Some b \<Rightarrow> unat b) + 256 * read_le m (a + 1) n"

text \<open>
  \<open>HRESULT SafeArrayGetElement(SAFEARRAY *psa, LONG *rgIndices, void *pv)\<close>: copies the
  element at the index, which is signed and counted from the lower bound, into \<open>pv\<close>;
  \<open>DISP_E_BADINDEX\<close> outside the bounds. The reference that the procedure adds to an
  element that is an object is not tracked.
\<close>

definition os_SafeArrayGetElement :: "world \<Rightarrow> nat \<Rightarrow> 32 word \<Rightarrow> (nat \<times> outval) \<times> world" where
  "os_SafeArrayGetElement w psa idx =
     (case arrays w psa of
        None \<Rightarrow> ((E_INVALIDARG, NoOut), w)
      | Some a \<Rightarrow>
          if sint idx < sint (lLbound (rgsabound a))
             \<or> sint (lLbound (rgsabound a)) + uint (cElements (rgsabound a)) \<le> sint idx
          then ((DISP_E_BADINDEX, NoOut), w)
          else
            ((0, OutWord (read_le (mem w)
                    (pvData a + nat (sint idx - sint (lLbound (rgsabound a))) * unat (cbElements a))
                    (unat (cbElements a)))), w))"

fun native_proc :: "world \<Rightarrow> string \<Rightarrow> uarg list \<Rightarrow> (nat \<times> outval) \<times> world" where
  "native_proc w name [Val a] =
     (if name = ''SafeArrayGetDim'' then os_SafeArrayGetDim w a
      else if name = ''SafeArrayLock'' then os_SafeArrayLock w a
      else ((0, NoOut), w))"
| "native_proc w name [Val vt, Val dims, InBound b] =
     (if name = ''SafeArrayCreate'' then os_SafeArrayCreate w vt dims b else ((0, NoOut), w))"
| "native_proc w name [Val dst, InBytes src, Val n] =
     (if name = ''RtlCopyMemory'' then os_RtlCopyMemory w dst src n else ((0, NoOut), w))"
| "native_proc w name [Val psa, Val nDim, OutVar v] =
     (if name = ''SafeArrayGetLBound'' then os_SafeArrayGetLBound w psa nDim
      else if name = ''SafeArrayGetUBound'' then os_SafeArrayGetUBound w psa nDim
      else ((0, NoOut), w))"
| "native_proc w name [Val psa, InIndex idx, OutVar v] =
     (if name = ''SafeArrayGetElement'' then os_SafeArrayGetElement w psa idx else ((0, NoOut), w))"
| "native_proc w name args = ((0, NoOut), w)"

text \<open>The last-error value Go reads after a native call.\<close>

definition next_errno :: "world \<Rightarrow> nat \<times> world" where
  "next_errno w = (case errnos w of [] \<Rightarrow> (0, w) | e # es \<Rightarrow> (e, w\<lparr>errnos := es\<rparr>))"

text \<open>
  \<open>proc.Call(args...)\<close> on a procedure found by name in a DLL: the call is recorded, the
  procedure runs, and Go returns its result together with the last-error value.
\<close>

definition Call :: "world \<Rightarrow> string \<Rightarrow> string \<Rightarrow> uarg list \<Rightarrow> (nat \<times> outval \<times> nat) \<times> world" where
  "Call w dll name args =
     (case native_proc (w\<lparr>calls := calls w @ [(Proc dll name, args)]\<rparr>) name args of
        ((r, out), w1) \<Rightarrow>
          (case next_errno w1 of (e, w2) \<Rightarrow> ((r, out, e), w2)))"

section \<open>safearray.go\<close>

definition SafeArrayCreate :: "world \<Rightarrow> nat \<Rightarrow> 32 word \<Rightarrow> SafeArrayBound \<Rightarrow> (error + uintptr) \<times> world" where
  "SafeArrayCreate w vt dims b =
     (case Call w ''OleAut32.dll'' ''SafeArrayCreate'' [Val vt, Val (unat dims), InBound b] of
        ((ret, out, err), w1) \<Rightarrow>
          if err \<noteq> 0 then (Inl (Errno err), w1)
          else if ret = 0 then
            (Inl (Errorf ''the OleAut32!SafeArrayCreate function return 0x%x and the SafeArray was not created'' ret), w1)
          else (Inr ret, w1))"

text \<open>
  \<open>CreateSafeArray\<close>. The arguments of the copy are evaluated before the call, so
  \<open>&rawBytes[0]\<close> on an empty slice panics before anything is copied. Reading
  \<open>safeArray.pvData\<close> through a pointer with no descriptor behind it is a fault.
\<close>

definition CreateSafeArray :: "world \<Rightarrow> byte list \<Rightarrow> (error + uintptr) \<times> world" where
  "CreateSafeArray w rawBytes =
     (case SafeArrayCreate w VT_UI1 1 \<lparr>cElements = of_nat (length rawBytes), lLbound = 0\<rparr> of
        (Inl e, w1) \<Rightarrow> (Inl e, w1)
      | (Inr safeArray, w1) \<Rightarrow>
          (case arrays w1 safeArray of
             None \<Rightarrow> (Inl (Panic ''invalid memory address or nil pointer dereference''), w1)
           | Some d \<Rightarrow>
               if rawBytes = [] then (Inl (Panic ''index out of range [0] with length 0''), w1)
               else
                 (case Call w1 ''ntdll.dll'' ''RtlCopyMemory''
                         [Val (pvData d), InBytes rawBytes, Val (length rawBytes)] of
                    ((r, out, err), w2) \<Rightarrow>
                      if err \<noteq> 0 then (Inl (Errno err), w2) else (Inr safeArray, w2))))"

text \<open>\<open>SafeArrayLock\<close>, with the procedure name it looks up.\<close>

definition SafeArrayLock :: "world \<Rightarrow> uintptr \<Rightarrow> (error + unit) \<times> world" where
  "SafeArrayLock w psa =
     (case Call w ''OleAut32.dll'' ''SafeArrayCreate'' [Val psa] of
        ((hr, out, err), w1) \<Rightarrow>
          if err \<noteq> 0 then (Inl (Errno err), w1)
          else if hr \<noteq> S_OK then
            (Inl (Errorf ''the OleAut32!SafeArrayCreate function returned a non-zero HRESULT'' hr), w1)
          else (Inr (), w1))"

text \<open>The native calls made between two states of the process.\<close>

definition calls_since :: "world \<Rightarrow> world \<Rightarrow> (target \<times> uarg list) list" where
  "calls_since w w' = drop (length (calls w)) (calls w')"

definition SafeArrayGetDim :: "world \<Rightarrow> uintptr \<Rightarrow> (error + 32 word) \<times> world" where
  "SafeArrayGetDim w psa =
     (case Call w ''OleAut32.dll'' ''SafeArrayGetDim'' [Val psa] of
        ((udimensions, out, err), w1) \<Rightarrow>
          if err \<noteq> 0 then
            (Inl (Errorf_s ''the oleaut32!SafeArrayGetDim function call returned an error'' (errtext w1 err)), w1)
          else (Inr (of_nat udimensions), w1))"

definition SafeArrayGetLBound :: "world \<Rightarrow> uintptr \<Rightarrow> 32 word \<Rightarrow> (error + 32 word) \<times> world" where
  "SafeArrayGetLBound w psa nDim =
     (case Call w ''OleAut32.dll'' ''SafeArrayGetLBound'' [Val psa, Val (unat nDim), OutVar ''plLbound''] of
        ((hr, out, err), w1) \<Rightarrow>
          if err \<noteq> 0 then (Inl (Errno err), w1)
          else if hr \<noteq> S_OK then
            (Inl (Errorf ''the oleaut32!SafeArrayGetLBound function returned a non-zero HRESULT'' hr), w1)
          else (Inr (of_nat (out_ptr out)), w1))"

definition SafeArrayGetUBound :: "world \<Rightarrow> uintptr \<Rightarrow> 32 word \<Rightarrow> (error + 32 word) \<times> world" where
  "SafeArrayGetUBound w psa nDim =
     (case Call w ''OleAut32.dll'' ''SafeArrayGetUBound'' [Val psa, Val (unat nDim), OutVar ''plUbound''] of
        ((hr, out, err), w1) \<Rightarrow>
          if err \<noteq> 0 then (Inl (Errno err), w1)
          else if hr \<noteq> S_OK then
            (Inl (Errorf ''the oleaut32!SafeArrayGetUBound function returned a non-zero HRESULT'' hr), w1)
          else (Inr (of_nat (out_ptr out)), w1))"

definition SafeArrayGetElement :: "world \<Rightarrow> uintptr \<Rightarrow> 32 word \<Rightarrow> (error + uintptr) \<times> world" where
  "SafeArrayGetElement w array indicies =
     (case Call w ''OleAut32.dll'' ''SafeArrayGetElement'' [Val array, InIndex indicies, OutVar ''ret''] of
        ((hr, out, err), w1) \<Rightarrow>
          if err \<noteq> 0 then
            (Inl (Errorf_s ''the oleaut32!SafeArrayGetElement function call returned an error'' (errtext w1 err)), w1)
          else if hr \<noteq> S_OK then
            (Inl (Errorf ''the oleaut32!SafeArrayGetElement function returned a non-zero HRESULT'' hr), w1)
          else (Inr (out_ptr out), w1))"

text \<open>The bytes of an array's storage, element by element from the lower bound up.\<close>

definition elements :: "world \<Rightarrow> SafeArray \<Rightarrow> byte option list" where
  "elements w d = map (mem w) [pvData d ..< pvData d + unat (cElements (rgsabound d))]"

text \<open>The element count that the descriptor at an address records, if there is one.\<close>

definition element_count :: "world \<Rightarrow> uintptr \<Rightarrow> nat option" where
  "element_count w a =
     (case arrays w a of None \<Rightarrow> None | Some d \<Rightarrow> Some (unat (cElements (rgsabound d))))"

text \<open>The last-error value that the next native call will leave behind.\<close>

definition pending_errno :: "world \<Rightarrow> nat" where
  "pending_errno w = (case errnos w of [] \<Rightarrow> 0 | e # es \<Rightarrow> e)"

text \<open>
  A small concrete process: nothing mapped, no arrays, free memory from address 4096 up
  to 2^40, every object with reference count 1, every method slot answering status 0, no
  pending last-error values, and one message text for every last-error value.
\<close>

definition w0 :: world where
  "w0 = \<lparr>mem = (\<lambda>a. None), arrays = (\<lambda>a. None), brk = 4096, limit = 1099511627776,
          refs = (\<lambda>a. 1), com = (\<lambda>i s a. (0, NoOut)), bstrs = (\<lambda>a. []),
          errnos = [], errtext = (\<lambda>e. ''Access is denied.''), calls = []\<rparr>"

text \<open>The process \<open>w0\<close> with last-error 5 (access denied) pending for the next native call.\<close>

definition w_err :: world where
  "w_err = w0\<lparr>errnos := [5]\<rparr>"

text \<open>The process \<open>w0\<close> with last-error 1150 pending for the next native call.\<close>

definition w_1150 :: world where
  "w_1150 = w0\<lparr>errnos := [1150]\<rparr>"

text \<open>The process \<open>w0\<close> with the eight bytes at addresses 0 to 7 mapped, each holding 7.\<close>

definition w_low :: world where
  "w_low = w0\<lparr>mem := (\<lambda>a. if a < 8 then Some 7 else None)\<rparr>"

section \<open>Calls through a method table\<close>

text \<open>
  The method behind a slot of a hosted object. \<open>AddRef\<close> and \<open>Release\<close> are the
  reference counting that every object of the protocol implements ("\<open>ULONG AddRef()\<close>",
  "\<open>ULONG Release()\<close>": the new count is the return value); they act on the object
  whose address is the first argument. Every other slot answers as the opaque runtime
  does (\<open>com\<close>).
\<close>

fun native_slot :: "world \<Rightarrow> string \<Rightarrow> string \<Rightarrow> uarg list \<Rightarrow> (nat \<times> outval) \<times> world" where
  "native_slot w iface slot (Val this # rest) =
     (if slot = ''AddRef'' then
        ((unat (refs w this + 1), NoOut), w\<lparr>refs := (refs w)(this := refs w this + 1)\<rparr>)
      else if slot = ''Release'' then
        ((unat (refs w this - 1), NoOut), w\<lparr>refs := (refs w)(this := refs w this - 1)\<rparr>)
      else (com w iface slot (Val this # rest), w))"
| "native_slot w iface slot args = (com w iface slot args, w)"

text \<open>
  \<open>syscall.SyscallN(obj.vtbl.Slot, args...)\<close>: the call is recorded with its argument
  list, the method runs, and Go returns its result together with the last-error value.
  The receiver \<open>obj\<close> is taken to be a live handle, so that reading \<open>obj.vtbl\<close> does
  not fault.
\<close>

definition SyscallN :: "world \<Rightarrow> string \<Rightarrow> string \<Rightarrow> uarg list \<Rightarrow> (nat \<times> outval \<times> nat) \<times> world" where
  "SyscallN w iface slot args =
     (case native_slot (w\<lparr>calls := calls w @ [(Slot iface slot, args)]\<rparr>) iface slot args of
        ((r, out), w1) \<Rightarrow>
          (case next_errno w1 of (e, w2) \<Rightarrow> ((r, out, e), w2)))"

text \<open>
  \<open>*(*uint32)(unsafe.Pointer(a))\<close>: the four bytes at an address, little-endian; reading
  an unmapped address is a fault.
\<close>

definition load32 :: "world \<Rightarrow> nat \<Rightarrow> 32 word option" where
  "load32 w a =
     (case mem w a of None \<Rightarrow> None | Some b0 \<Rightarrow>
      (case mem w (a + 1) of None \<Rightarrow> None | Some b1 \<Rightarrow>
       (case mem w (a + 2) of None \<Rightarrow> None | Some b2 \<Rightarrow>
        (case mem w (a + 3) of None \<Rightarrow> None | Some b3 \<Rightarrow>
           Some (of_nat (unat b0 + 256 * unat b1 + 65536 * unat b2 + 16777216 * unat b3))))))"

subsection \<open>iunknown.go\<close>

definition IUnknown_QueryInterface :: "world \<Rightarrow> uintptr \<Rightarrow> string \<Rightarrow> uarg \<Rightarrow> (error + uintptr) \<times> world" where
  "IUnknown_QueryInterface w obj riid ppvObject =
     (case SyscallN w ''IUnknown'' ''QueryInterface'' [Val obj, InGuid riid, ppvObject] of
        ((hr, out, err), w1) \<Rightarrow>
          if err \<noteq> 0 then
            (Inl (Errorf_s ''the IUknown::QueryInterface method returned an error'' (errtext w1 err)), w1)
          else if hr \<noteq> S_OK then
            (Inl (Errorf ''the IUknown::QueryInterface method method returned a non-zero HRESULT'' hr), w1)
          else (Inr (out_ptr out), w1))"

definition IUnknown_AddRef :: "world \<Rightarrow> uintptr \<Rightarrow> (error + 32 word) \<times> world" where
  "IUnknown_AddRef w obj =
     (case SyscallN w ''IUnknown'' ''AddRef'' [Val obj] of
        ((ret, out, err), w1) \<Rightarrow>
          if err \<noteq> 0 then
            (Inl (Errorf_s ''the IUnknown::AddRef method returned an error'' (errtext w1 err)), w1)
          else
            (case load32 w1 ret of
               None \<Rightarrow> (Inl (Panic ''invalid memory address or nil pointer dereference''), w1)
             | Some count \<Rightarrow> (Inr count, w1)))"

definition IUnknown_Release :: "world \<Rightarrow> uintptr \<Rightarrow> (error + 32 word) \<times> world" where
  "IUnknown_Release w obj =
     (case SyscallN w ''IUnknown'' ''Release'' [Val obj] of
        ((ret, out, err), w1) \<Rightarrow>
          if err \<noteq> 0 then
            (Inl (Errorf_s ''the IUnknown::Release method returned an error'' (errtext w1 err)), w1)
          else
            (case load32 w1 ret of
               None \<Rightarrow> (Inl (Panic ''invalid memory address or nil pointer dereference''), w1)
             | Some count \<Rightarrow> (Inr count, w1)))"

subsection \<open>appdomain.go\<close>

definition AppDomain_QueryInterface :: "world \<Rightarrow> uintptr \<Rightarrow> uarg \<Rightarrow> uarg \<Rightarrow> uintptr \<times> world" where
  "AppDomain_QueryInterface w obj riid ppvObject =
     (case SyscallN w ''AppDomain'' ''QueryInterface'' [Val obj, riid, ppvObject] of
        ((ret, out, err), w1) \<Rightarrow> (ret, w1))"

definition AppDomain_AddRef :: "world \<Rightarrow> uintptr \<Rightarrow> uintptr \<times> world" where
  "AppDomain_AddRef w obj =
     (case SyscallN w ''AppDomain'' ''AddRef'' [Val obj] of ((ret, out, err), w1) \<Rightarrow> (ret, w1))"

definition AppDomain_Release :: "world \<Rightarrow> uintptr \<Rightarrow> uintptr \<times> world" where
  "AppDomain_Release w obj =
     (case SyscallN w ''AppDomain'' ''Release'' [Val obj] of ((ret, out, err), w1) \<Rightarrow> (ret, w1))"

definition AppDomain_GetHashCode :: "world \<Rightarrow> uintptr \<Rightarrow> (error + 32 word) \<times> world" where
  "AppDomain_GetHashCode w obj =
     (case SyscallN w ''AppDomain'' ''GetHashCode'' [Val obj, Val 0] of
        ((ret, out, err), w1) \<Rightarrow>
          if err \<noteq> 0 then
            (Inl (Errorf_s ''the appdomain.GetHashCode function returned an error'' (errtext w1 err)), w1)
          else (Inr (of_nat ret), w1))"

text \<open>
  Modelled from the spec: \<open>ReadUnicodeStr\<close> is declared outside the files at hand. The
  spec's \<open>fromWide(ptr)\<close> "reads the length prefix (byte count) from \<open>ptr\<close>, then decodes
  that many bytes as UTF-16 into host text"; the outcome of that decoding for the string
  at an address is what \<open>bstrs\<close> holds.
\<close>

definition ReadUnicodeStr :: "world \<Rightarrow> uintptr \<Rightarrow> string" where
  "ReadUnicodeStr w p = bstrs w p"

definition AppDomain_GetFriendlyName :: "world \<Rightarrow> uintptr \<Rightarrow> (error + string) \<times> world" where
  "AppDomain_GetFriendlyName w obj =
     (case SyscallN w ''AppDomain'' ''get_FriendlyName'' [Val obj, OutVar ''bstrFriendlyname'', Val 0] of
        ((hr, out, err), w1) \<Rightarrow>
          if err \<noteq> 0 then
            (Inl (Errorf_s ''the appdomain.GetFriendlyName function returned an error'' (errtext w1 err)), w1)
          else if hr \<noteq> S_OK then
            (Inl (Errorf ''the appdomain.GetFriendlyName function returned a non-zero HRESULT'' hr), w1)
          else (Inr (ReadUnicodeStr w1 (out_ptr out)), w1))"

text \<open>
  \<open>Load_3\<close>: a last-error value other than 0 and 1150 is returned as it is; 0 and 1150
  fall through to the check of the status.
\<close>

definition AppDomain_Load_3 :: "world \<Rightarrow> uintptr \<Rightarrow> uintptr \<Rightarrow> (error + uintptr) \<times> world" where
  "AppDomain_Load_3 w obj rawAssembly =
     (case SyscallN w ''AppDomain'' ''Load_3'' [Val obj, Val rawAssembly, OutVar ''assembly''] of
        ((hr, out, err), w1) \<Rightarrow>
          if err \<noteq> 0 \<and> err \<noteq> 1150 then (Inl (Errno err), w1)
          else if hr \<noteq> S_OK then
            (Inl (Errorf ''the appdomain.Load_3 function returned a non-zero HRESULT'' hr), w1)
          else (Inr (out_ptr out), w1))"

definition AppDomain_ToString :: "world \<Rightarrow> uintptr \<Rightarrow> (error + string) \<times> world" where
  "AppDomain_ToString w obj =
     (case SyscallN w ''AppDomain'' ''get_ToString'' [Val obj, OutVar ''pDomain''] of
        ((hr, out, err), w1) \<Rightarrow>
          if err \<noteq> 0 then
            (Inl (Errorf_s ''the AppDomain.ToString method retured an error'' (errtext w1 err)), w1)
          else if hr \<noteq> S_OK then
            (Inl (Errorf ''the AppDomain.ToString method returned a non-zero HRESULT'' hr), w1)
          else (Inr (ReadUnicodeStr w1 (out_ptr out)), w1))"

definition AppDomain_GetAssemblies :: "world \<Rightarrow> uintptr \<Rightarrow> (error + uintptr) \<times> world" where
  "AppDomain_GetAssemblies w obj =
     (case SyscallN w ''AppDomain'' ''GetAssemblies'' [Val obj, OutVar ''safeArray''] of
        ((hr, out, err), w1) \<Rightarrow>
          if err \<noteq> 0 then
            (Inl (Errorf_s ''the AppDomain.GetAssemblies method retured an error'' (errtext w1 err)), w1)
          else if hr \<noteq> S_OK then
            (Inl (Errorf ''the AppDomain.GetAssemblies method returned a non-zero HRESULT'' hr), w1)
          else (Inr (out_ptr out), w1))"

subsection \<open>icorruntimehost.go\<close>

definition ICORRuntimeHost_QueryInterface :: "world \<Rightarrow> uintptr \<Rightarrow> string \<Rightarrow> uarg \<Rightarrow> (error + uintptr) \<times> world" where
  "ICORRuntimeHost_QueryInterface w obj riid ppvObject =
     (case SyscallN w ''ICORRuntimeHost'' ''QueryInterface'' [Val obj, InGuid riid, ppvObject] of
        ((hr, out, err), w1) \<Rightarrow>
          if err \<noteq> 0 then
            (Inl (Errorf_s ''the IUknown::QueryInterface method returned an error'' (errtext w1 err)), w1)
          else if hr \<noteq> S_OK then
            (Inl (Errorf ''the IUknown::QueryInterface method method returned a non-zero HRESULT'' hr), w1)
          else (Inr (out_ptr out), w1))"

definition ICORRuntimeHost_AddRef :: "world \<Rightarrow> uintptr \<Rightarrow> uintptr \<times> world" where
  "ICORRuntimeHost_AddRef w obj =
     (case SyscallN w ''ICORRuntimeHost'' ''AddRef'' [Val obj] of ((ret, out, err), w1) \<Rightarrow> (ret, w1))"

definition ICORRuntimeHost_Release :: "world \<Rightarrow> uintptr \<Rightarrow> uintptr \<times> world" where
  "ICORRuntimeHost_Release w obj =
     (case SyscallN w ''ICORRuntimeHost'' ''Release'' [Val obj] of ((ret, out, err), w1) \<Rightarrow> (ret, w1))"

text \<open>
  \<open>Start\<close>: a last-error value is only printed in debug mode; the result depends on the
  status alone.
\<close>

definition ICORRuntimeHost_Start :: "world \<Rightarrow> uintptr \<Rightarrow> (error + unit) \<times> world" where
  "ICORRuntimeHost_Start w obj =
     (case SyscallN w ''ICORRuntimeHost'' ''Start'' [Val obj] of
        ((hr, out, err), w1) \<Rightarrow>
          if hr \<noteq> S_OK then
            (Inl (Errorf ''the ICORRuntimeHost::Start method method returned a non-zero HRESULT'' hr), w1)
          else (Inr (), w1))"

definition ICORRuntimeHost_GetDefaultDomain :: "world \<Rightarrow> uintptr \<Rightarrow> (error + uintptr) \<times> world" where
  "ICORRuntimeHost_GetDefaultDomain w obj =
     (case SyscallN w ''ICORRuntimeHost'' ''GetDefaultDomain'' [Val obj, OutVar ''IUnknown''] of
        ((hr, out, err), w1) \<Rightarrow>
          if hr \<noteq> S_OK then
            (Inl (Errorf ''the ICORRuntimeHost::GetDefaultDomain method method returned a non-zero HRESULT'' hr), w1)
          else (Inr (out_ptr out), w1))"

text \<open>
  \<open>CreateDomain\<close>. \<open>utf16Le\<close> is declared outside the files at hand; the buffer it
  returns for the name is taken to be non-empty, so that the address of its first element
  exists. \<open>iu.QueryInterface\<close> on a nil \<open>iu\<close> reads through a nil pointer.
\<close>

definition ICORRuntimeHost_CreateDomain :: "world \<Rightarrow> uintptr \<Rightarrow> string \<Rightarrow> (error + uintptr) \<times> world" where
  "ICORRuntimeHost_CreateDomain w obj FriendlyName =
     (case SyscallN w ''ICORRuntimeHost'' ''CreateDomain''
             [Val obj, InText FriendlyName, Val 0, OutVar ''iu''] of
        ((hr, out, err), w1) \<Rightarrow>
          if hr \<noteq> S_OK then
            (Inl (Errorf ''the ICORRuntimeHost::CreateDomain method returned a non-zero HRESULT'' hr), w1)
          else if out_ptr out = 0 then
            (Inl (Panic ''invalid memory address or nil pointer dereference''), w1)
          else IUnknown_QueryInterface w1 (out_ptr out) ''IID_AppDomain'' (OutVar ''pAppDomain''))"

text \<open>\<open>EnumDomains\<close>, with the argument list it passes.\<close>

definition ICORRuntimeHost_EnumDomains :: "world \<Rightarrow> uintptr \<Rightarrow> (error + uintptr) \<times> world" where
  "ICORRuntimeHost_EnumDomains w obj =
     (case SyscallN w ''ICORRuntimeHost'' ''EnumDomains'' [OutVar ''hEnum''] of
        ((hr, out, err), w1) \<Rightarrow>
          if err \<noteq> 0 then
            (Inl (Errorf_s ''the ICORRuntimeHost::EnumDomains method returned an error'' (errtext w1 err)), w1)
          else if hr \<noteq> S_OK then
            (Inl (Errorf ''the ICORRuntimeHost::EnumDomains method returned a non-zero HRESULT'' hr), w1)
          else (Inr (out_ptr out), w1))"

definition ICORRuntimeHost_NextDomain :: "world \<Rightarrow> uintptr \<Rightarrow> uintptr \<Rightarrow> (error + uintptr) \<times> world" where
  "ICORRuntimeHost_NextDomain w obj hDomainEnum =
     (case SyscallN w ''ICORRuntimeHost'' ''NextDomain'' [Val obj, Val hDomainEnum, OutVar ''iu''] of
        ((hr, out, err), w1) \<Rightarrow>
          if err \<noteq> 0 then
            (Inl (Errorf_s ''the ICORRuntimeHost::NextDomain method returned an error'' (errtext w1 err)), w1)
          else if hr \<noteq> S_OK then
            (Inl (Errorf ''the ICORRuntimeHost::NextDomain method returned a non-zero HRESULT'' hr), w1)
          else if out_ptr out = 0 then
            (Inl (Panic ''invalid memory address or nil pointer dereference''), w1)
          else IUnknown_QueryInterface w1 (out_ptr out) ''IID_AppDomain'' (OutVar ''ad''))"

definition ICORRuntimeHost_CloseEnum :: "world \<Rightarrow> uintptr \<Rightarrow> uintptr \<Rightarrow> (error + unit) \<times> world" where
  "ICORRuntimeHost_CloseEnum w obj hDomainEnum =
     (case SyscallN w ''ICORRuntimeHost'' ''CloseEnum'' [Val obj, Val hDomainEnum] of
        ((hr, out, err), w1) \<Rightarrow>
          if err \<noteq> 0 then
            (Inl (Errorf_s ''the ICORRuntimeHost::CloseEnum method returned an error'' (errtext w1 err)), w1)
          else if hr \<noteq> S_OK then
            (Inl (Errorf ''the ICORRuntimeHost::CloseEnum method returned a non-zero HRESULT'' hr), w1)
          else (Inr (), w1))"

definition ICORRuntimeHost_UnloadDomain :: "world \<Rightarrow> uintptr \<Rightarrow> uintptr \<Rightarrow> (error + unit) \<times> world" where
  "ICORRuntimeHost_UnloadDomain w obj appdomain =
     (case SyscallN w ''ICORRuntimeHost'' ''UnloadDomain'' [Val obj, Val appdomain] of
        ((hr, out, err), w1) \<Rightarrow>
          if err \<noteq> 0 then
            (Inl (Errorf_s ''the ICORRuntimeHost::UnloadDomain method returned an error'' (errtext w1 err)), w1)
          else if hr \<noteq> S_OK then
            (Inl (Errorf ''the ICORRuntimeHost::UnloadDomain method returned a non-zero HRESULT'' hr), w1)
          else (Inr (), w1))"

definition ICORRuntimeHost_Stop :: "world \<Rightarrow> uintptr \<Rightarrow> (error + unit) \<times> world" where
  "ICORRuntimeHost_Stop w obj =
     (case SyscallN w ''ICORRuntimeHost'' ''Stop'' [Val obj] of
        ((hr, out, err), w1) \<Rightarrow>
          if err \<noteq> 0 then
            (Inl (Errorf_s ''the ICORRuntimeHost::UnloadDomain method returned an error'' (errtext w1 err)), w1)
          else if hr \<noteq> S_OK then
            (Inl (Errorf ''the ICORRuntimeHost::UnloadDomain method returned a non-zero HRESULT'' hr), w1)
          else (Inr (), w1))"

subsection \<open>assembly.go\<close>

definition Assembly_QueryInterface :: "world \<Rightarrow> uintptr \<Rightarrow> uarg \<Rightarrow> uarg \<Rightarrow> uintptr \<times> world" where
  "Assembly_QueryInterface w obj riid ppvObject =
     (case SyscallN w ''Assembly'' ''QueryInterface'' [Val obj, riid, ppvObject] of
        ((ret, out, err), w1) \<Rightarrow> (ret, w1))"

definition Assembly_AddRef :: "world \<Rightarrow> uintptr \<Rightarrow> uintptr \<times> world" where
  "Assembly_AddRef w obj =
     (case SyscallN w ''Assembly'' ''AddRef'' [Val obj] of ((ret, out, err), w1) \<Rightarrow> (ret, w1))"

definition Assembly_Release :: "world \<Rightarrow> uintptr \<Rightarrow> uintptr \<times> world" where
  "Assembly_Release w obj =
     (case SyscallN w ''Assembly'' ''Release'' [Val obj] of ((ret, out, err), w1) \<Rightarrow> (ret, w1))"

definition Assembly_GetEntryPoint :: "world \<Rightarrow> uintptr \<Rightarrow> (error + uintptr) \<times> world" where
  "Assembly_GetEntryPoint w obj =
     (case SyscallN w ''Assembly'' ''get_EntryPoint'' [Val obj, OutVar ''pRetVal''] of
        ((hr, out, err), w1) \<Rightarrow>
          if err \<noteq> 0 then
            (Inl (Errorf_s ''the Assembly::GetEntryPoint method returned an error'' (errtext w1 err)), w1)
          else if hr \<noteq> S_OK then
            (Inl (Errorf ''the Assembly::GetEntryPoint method returned a non-zero HRESULT'' hr), w1)
          else (Inr (out_ptr out), w1))"

definition Assembly_GetFullName :: "world \<Rightarrow> uintptr \<Rightarrow> (error + string) \<times> world" where
  "Assembly_GetFullName w obj =
     (case SyscallN w ''Assembly'' ''get_FullName'' [Val obj, OutVar ''pRetValBSTR''] of
        ((hr, out, err), w1) \<Rightarrow>
          if err \<noteq> 0 then
            (Inl (Errorf_s ''the Assembly::GetFullName method returned an error'' (errtext w1 err)), w1)
          else if hr \<noteq> S_OK then
            (Inl (Errorf ''the Assembly::GetFullName method returned a non-zero HRESULT'' hr), w1)
          else (Inr (ReadUnicodeStr w1 (out_ptr out)), w1))"

text \<open>The argument list of the first native call made between two states of the process.\<close>

definition native_args :: "world \<Rightarrow> world \<Rightarrow> uarg list" where
  "native_args w w' = (case calls_since w w' of [] \<Rightarrow> [] | c # cs \<Rightarrow> snd c)"

section \<open>The assembly enumerator\<close>

text \<open>
  \<open>ListAssemblies\<close> of appdomain.go. The loop counts \<open>i\<close> in 32 bits up to \<open>ubound\<close>
  inclusive, so with \<open>ubound\<close> at its maximum only a failing read of an element ends it;
  a loop that does not end has the value \<open>None\<close>. The capacity hint of \<open>make\<close> is not
  modelled.
\<close>

partial_function (option) ListAssemblies_loop ::
  "world \<Rightarrow> uintptr \<Rightarrow> 32 word \<Rightarrow> 32 word \<Rightarrow> uintptr list \<Rightarrow> ((error + uintptr list) \<times> world) option" where
  "ListAssemblies_loop w safeArray i ubound assemblies =
     (if i \<le> ubound then
        (case SafeArrayGetElement w safeArray i of
           (Inl e, w1) \<Rightarrow> Some (Inl e, w1)
         | (Inr pApp, w1) \<Rightarrow> ListAssemblies_loop w1 safeArray (i + 1) ubound (assemblies @ [pApp]))
      else Some (Inr assemblies, w))"

definition ListAssemblies :: "world \<Rightarrow> uintptr \<Rightarrow> ((error + uintptr list) \<times> world) option" where
  "ListAssemblies w obj =
     (case AppDomain_GetAssemblies w obj of
        (Inl e, w1) \<Rightarrow> Some (Inl e, w1)
      | (Inr safeArray, w1) \<Rightarrow>
          (case SafeArrayGetDim w1 safeArray of
             (Inl e, w2) \<Rightarrow> Some (Inl e, w2)
           | (Inr d, w2) \<Rightarrow>
               if d \<noteq> 1 then Some (Inl (Errorf ''expected dimension of 1, got %d'' (unat d)), w2)
               else
                 (case SafeArrayGetLBound w2 safeArray d of
                    (Inl e, w3) \<Rightarrow> Some (Inl e, w3)
                  | (Inr lbound, w3) \<Rightarrow>
                      (case SafeArrayGetUBound w3 safeArray d of
                         (Inl e, w4) \<Rightarrow> Some (Inl e, w4)
                       | (Inr ubound, w4) \<Rightarrow> ListAssemblies_loop w4 safeArray lbound ubound []))))"

text \<open>
  \<open>strings.HasPrefix\<close> of the Go library. \<open>strings.ToLower\<close>, a function of the Go
  library as well, is a parameter of the search; \<open>ToLower_ascii\<close> is what it does on
  ASCII text.
\<close>

definition HasPrefix :: "string \<Rightarrow> string \<Rightarrow> bool" where
  "HasPrefix s prefix = (length prefix \<le> length s \<and> take (length prefix) s = prefix)"

text \<open>
  An upper-case letter (codes 65 to 90) becomes the letter 32 above it, which is the same
  code with bit 5 set.
\<close>

definition lower_char :: "char \<Rightarrow> char" where
  "lower_char c =
     (if (65 :: nat) \<le> of_char c \<and> of_char c \<le> (90 :: nat)
      then (case c of Char b0 b1 b2 b3 b4 b5 b6 b7 \<Rightarrow> Char b0 b1 b2 b3 b4 True b6 b7)
      else c)"

definition ToLower_ascii :: "string \<Rightarrow> string" where
  "ToLower_ascii s = map lower_char s"

text \<open>
  The loop of \<open>Load_2\<close> over the listed assemblies: an entry whose name cannot be read is
  passed over, the first entry whose name matches is returned, and the search that finds
  nothing ends in the error "could not find assembly with name ...".
\<close>

fun Load_2_scan :: "(string \<Rightarrow> string) \<Rightarrow> world \<Rightarrow> string \<Rightarrow> uintptr list \<Rightarrow> (error + uintptr) \<times> world" where
  "Load_2_scan ToLower w assemblyString [] = (Inl (NotFound assemblyString), w)"
| "Load_2_scan ToLower w assemblyString (a # asmb) =
     (case Assembly_GetFullName w a of
        (Inr name, w1) \<Rightarrow>
          if HasPrefix (ToLower name) (ToLower assemblyString) then (Inr a, w1)
          else Load_2_scan ToLower w1 assemblyString asmb
      | (Inl err, w1) \<Rightarrow> Load_2_scan ToLower w1 assemblyString asmb)"

definition Load_2 :: "(string \<Rightarrow> string) \<Rightarrow> world \<Rightarrow> uintptr \<Rightarrow> string \<Rightarrow> ((error + uintptr) \<times> world) option" where
  "Load_2 ToLower w obj assemblyString =
     (case ListAssemblies w obj of
        None \<Rightarrow> None
      | Some (Inl err, w1) \<Rightarrow> Some (Inl err, w1)
      | Some (Inr asmb, w1) \<Rightarrow> Some (Load_2_scan ToLower w1 assemblyString asmb))"

text \<open>
  The earlier revision of appdomain.go, kept in the same file: there \<open>GetAssemblies\<close>
  looks at the status only, and \<open>ListAssemblies\<close> reads the name of every element and
  returns the names.
\<close>

definition AppDomain_GetAssemblies_old :: "world \<Rightarrow> uintptr \<Rightarrow> (error + uintptr) \<times> world" where
  "AppDomain_GetAssemblies_old w obj =
     (case SyscallN w ''AppDomain'' ''GetAssemblies'' [Val obj, OutVar ''safeArray''] of
        ((ret, out, err), w1) \<Rightarrow>
          if ret \<noteq> 0 then (Inl (Errorf ''getassemblies'' ret), w1)
          else (Inr (out_ptr out), w1))"

partial_function (option) ListAssemblies_old_loop ::
  "world \<Rightarrow> uintptr \<Rightarrow> 32 word \<Rightarrow> 32 word \<Rightarrow> string list \<Rightarrow> ((error + string list) \<times> world) option" where
  "ListAssemblies_old_loop w safeArray i ubound assemblies =
     (if i \<le> ubound then
        (case SafeArrayGetElement w safeArray i of
           (Inl e, w1) \<Rightarrow> Some (Inl e, w1)
         | (Inr pApp, w1) \<Rightarrow>
             (case Assembly_GetFullName w1 pApp of
                (Inl e, w2) \<Rightarrow> Some (Inl e, w2)
              | (Inr asss, w2) \<Rightarrow>
                  ListAssemblies_old_loop w2 safeArray (i + 1) ubound (assemblies @ [asss])))
      else Some (Inr assemblies, w))"

definition ListAssemblies_old :: "world \<Rightarrow> uintptr \<Rightarrow> ((error + string list) \<times> world) option" where
  "ListAssemblies_old w obj =
     (case AppDomain_GetAssemblies_old w obj of
        (Inl e, w1) \<Rightarrow> Some (Inl e, w1)
      | (Inr safeArray, w1) \<Rightarrow>
          (case SafeArrayGetDim w1 safeArray of
             (Inl e, w2) \<Rightarrow> Some (Inl e, w2)
           | (Inr d, w2) \<Rightarrow>
               if d \<noteq> 1 then Some (Inl (Errorf ''expected dimension of 1, got %d'' (unat d)), w2)
               else
                 (case SafeArrayGetLBound w2 safeArray d of
                    (Inl e, w3) \<Rightarrow> Some (Inl e, w3)
                  | (Inr lbound, w3) \<Rightarrow>
                      (case SafeArrayGetUBound w3 safeArray d of
                         (Inl e, w4) \<Rightarrow> Some (Inl e, w4)
                       | (Inr ubound, w4) \<Rightarrow> ListAssemblies_old_loop w4 safeArray lbound ubound []))))"

subsection \<open>What the enumerator is to compute\<close>

text \<open>
  The values that an array of one dimension holds, in the order of the array: element
  \<open>k\<close> occupies the \<open>cbElements\<close> bytes from \<open>pvData + k * cbElements\<close>.
\<close>

definition array_elements :: "world \<Rightarrow> SafeArray \<Rightarrow> nat list" where
  "array_elements w d =
     map (\<lambda>k. read_le (mem w) (pvData d + k * unat (cbElements d)) (unat (cbElements d)))
       [0 ..< unat (cElements (rgsabound d))]"

text \<open>
  The outcome of reading the qualified name of each listed entry in turn, every read
  being one call of \<open>GetFullName\<close>.
\<close>

fun name_reads :: "world \<Rightarrow> uintptr list \<Rightarrow> (uintptr \<times> (error + string)) list" where
  "name_reads w [] = []"
| "name_reads w (a # asmb) =
     (case Assembly_GetFullName w a of (r, w1) \<Rightarrow> (a, r) # name_reads w1 asmb)"

text \<open>
  The search as the spec words it: the first entry whose name, case-folded, starts with
  the case-folded search string; not found if there is none. An entry without a name
  cannot match.
\<close>

fun first_match :: "(string \<Rightarrow> string) \<Rightarrow> string \<Rightarrow> (uintptr \<times> (error + string)) list \<Rightarrow> error + uintptr" where
  "first_match ToLower s [] = Inl (NotFound s)"
| "first_match ToLower s ((a, Inr name) # rest) =
     (if HasPrefix (ToLower name) (ToLower s) then Inr a else first_match ToLower s rest)"
| "first_match ToLower s ((a, Inl e) # rest) = first_match ToLower s rest"

text \<open>An entry matches when its name was read and, case-folded, starts with the case-folded search string.\<close>

fun name_matches :: "(string \<Rightarrow> string) \<Rightarrow> string \<Rightarrow> uintptr \<times> (error + string) \<Rightarrow> bool" where
  "name_matches ToLower s (a, Inr name) = HasPrefix (ToLower name) (ToLower s)"
| "name_matches ToLower s (a, Inl e) = False"


text \<open>
  What reading the qualified name of an entry gives when the call leaves no last-error
  value: the name the runtime reports, or the error that carries its status.
\<close>

definition full_name :: "world \<Rightarrow> uintptr \<Rightarrow> error + string" where
  "full_name w a =
     (case com w ''Assembly'' ''get_FullName'' [Val a, OutVar ''pRetValBSTR''] of
        (hr, out) \<Rightarrow>
          if hr \<noteq> S_OK then
            Inl (Errorf ''the Assembly::GetFullName method returned a non-zero HRESULT'' hr)
          else Inr (ReadUnicodeStr w (out_ptr out)))"

text \<open>No native call to come leaves a last-error value.\<close>

definition quiet :: "world \<Rightarrow> bool" where
  "quiet w = list_all (\<lambda>e. e = 0) (errnos w)"

text \<open>The process after a native call that changes nothing on the native side.\<close>

definition after_call :: "world \<Rightarrow> target \<times> uarg list \<Rightarrow> world" where
  "after_call w c = w\<lparr>calls := calls w @ [c], errnos := tl (errnos w)\<rparr>"

text \<open>
  A domain at address 8192 that reports two assemblies, at 12288 and 12544, in an array
  at 16384. The second is named \<open>TestDLL, ...\<close>. The first is named \<open>mscorlib, ...\<close> when
  \<open>ok\<close> holds; otherwise reading its name fails with status \<open>E_FAIL\<close>.
\<close>

fun this_arg :: "uarg list \<Rightarrow> nat" where
  "this_arg (Val a # rest) = a"
| "this_arg args = 0"

definition E_FAIL :: nat where
  "E_FAIL = 2147500037"

definition com_dom :: "bool \<Rightarrow> string \<Rightarrow> string \<Rightarrow> uarg list \<Rightarrow> nat \<times> outval" where
  "com_dom ok iface slot args =
     (if slot = ''GetAssemblies'' then (0, OutWord 16384)
      else if slot = ''get_FullName'' then
        (if this_arg args = 12288 then (if ok then (0, OutWord 100) else (E_FAIL, NoOut))
         else if this_arg args = 12544 then (0, OutWord 200)
         else (E_FAIL, NoOut))
      else (0, NoOut))"

definition d_dom :: SafeArray where
  "d_dom = \<lparr>cDims = 1, fFeatures = 512, cbElements = 8, cLocks = 0, pvData = 16416,
            rgsabound = \<lparr>cElements = 2, lLbound = 0\<rparr>\<rparr>"

definition w_dom :: "bool \<Rightarrow> world" where
  "w_dom ok = w0\<lparr>
     arrays := (\<lambda>a. if a = 16384 then Some d_dom else None),
     mem := write_bytes (\<lambda>a. None) 16416 [0, 48, 0, 0, 0, 0, 0, 0, 0, 49, 0, 0, 0, 0, 0, 0],
     com := com_dom ok,
     bstrs := (\<lambda>p. if p = 100 then ''mscorlib, Version=4.0.0.0, Culture=neutral, PublicKeyToken=b77a5c561934e089''
                   else if p = 200 then ''TestDLL, Version=1.0.0.0, Culture=neutral, PublicKeyToken=null''
                   else [])\<rparr>"

section \<open>The hosting state machine\<close>

text \<open>
  Modelled from the spec: the functions that sequence the stages (runtime discovery,
  host start, domain, assembly load, entry point, invocation) are not in the files at
  hand. What follows is section 4.3 of the spec: seven stages in order; every operation
  has a prerequisite stage and the stage it completes; an operation attempted before its
  prerequisite stage completed fails with \<open>InvalidState\<close>; a failed native call fails
  the operation with the stage name and the status; a runtime that is not loadable fails
  with \<open>RuntimeNotLoadable\<close>, a missing meta-host with \<open>FactoryUnavailable\<close>; \<open>Start\<close>
  again while started is accepted; \<open>Stop\<close>, the explicit teardown, is accepted once the
  host is started. The stage that \<open>Stop\<close> returns to is not fixed by the spec; the model
  takes the one before \<open>HostStarted\<close>.
\<close>

datatype stage =
    Uninitialized | RuntimeSelected | HostStarted | DomainReady
  | AssemblyLoaded | EntryResolved | Executed

fun rank :: "stage \<Rightarrow> nat" where
  "rank Uninitialized = 0"
| "rank RuntimeSelected = 1"
| "rank HostStarted = 2"
| "rank DomainReady = 3"
| "rank AssemblyLoaded = 4"
| "rank EntryResolved = 5"
| "rank Executed = 6"

datatype request =
    SelectRuntime string
  | StartHost
  | TakeDefaultDomain
  | CreateNamedDomain string
  | LoadFromPath string
  | LoadFromBuffer "byte list"
  | ResolveEntryPoint
  | ResolveMethod string string
  | Invoke "string option"
  | Stop

text \<open>What the native side answers to the calls of an operation.\<close>

record answer =
  factory_ok :: bool
  loadable :: bool
  status :: "32 word"

datatype stage_error =
    FactoryUnavailable
  | RuntimeNotLoadable
  | InvalidState
  | StageFailed stage "32 word"

fun prerequisite :: "request \<Rightarrow> stage" where
  "prerequisite (SelectRuntime v) = Uninitialized"
| "prerequisite StartHost = RuntimeSelected"
| "prerequisite TakeDefaultDomain = HostStarted"
| "prerequisite (CreateNamedDomain n) = HostStarted"
| "prerequisite (LoadFromPath p) = DomainReady"
| "prerequisite (LoadFromBuffer b) = DomainReady"
| "prerequisite ResolveEntryPoint = AssemblyLoaded"
| "prerequisite (ResolveMethod t m) = AssemblyLoaded"
| "prerequisite (Invoke a) = EntryResolved"
| "prerequisite Stop = HostStarted"

fun completes :: "request \<Rightarrow> stage" where
  "completes (SelectRuntime v) = RuntimeSelected"
| "completes StartHost = HostStarted"
| "completes TakeDefaultDomain = DomainReady"
| "completes (CreateNamedDomain n) = DomainReady"
| "completes (LoadFromPath p) = AssemblyLoaded"
| "completes (LoadFromBuffer b) = AssemblyLoaded"
| "completes ResolveEntryPoint = EntryResolved"
| "completes (ResolveMethod t m) = EntryResolved"
| "completes (Invoke a) = Executed"
| "completes Stop = RuntimeSelected"

fun needs_factory :: "request \<Rightarrow> bool" where
  "needs_factory (SelectRuntime v) = True"
| "needs_factory r = False"

definition advance :: "stage \<Rightarrow> request \<Rightarrow> answer \<Rightarrow> stage_error + stage" where
  "advance s r a =
     (if rank s < rank (prerequisite r) then Inl InvalidState
      else if needs_factory r \<and> \<not> factory_ok a then Inl FactoryUnavailable
      else if status a \<noteq> 0 then Inl (StageFailed (completes r) (status a))
      else if needs_factory r \<and> \<not> loadable a then Inl RuntimeNotLoadable
      else if r = Stop then Inr RuntimeSelected
      else if rank s < rank (completes r) then Inr (completes r)
      else Inr s)"

section \<open>Arrays built from a buffer\<close>

lemma next_errno_fields:
  "next_errno w = (e, w') \<Longrightarrow>
     mem w' = mem w \<and> arrays w' = arrays w \<and> calls w' = calls w \<and> brk w' = brk w \<and> limit w' = limit w"
  by (auto simp: next_errno_def split: list.splits)

lemma os_SafeArrayCreate_ok:
  assumes "os_SafeArrayCreate w vt dims b = ((r, out), w')" "r \<noteq> 0"
  shows "\<exists>cb. elem_size vt = Some cb \<and> dims = 1 \<and> r = brk w \<and>
     brk w + desc_size + unat (cElements b) * cb \<le> limit w \<and>
     w' = w\<lparr>arrays := (arrays w)(brk w \<mapsto>
                   \<lparr>cDims = 1, fFeatures = 128, cbElements = of_nat cb, cLocks = 0,
                    pvData = brk w + desc_size, rgsabound = b\<rparr>),
               mem := zero_fill (mem w) (brk w + desc_size) (unat (cElements b) * cb),
               brk := brk w + desc_size + unat (cElements b) * cb\<rparr>"
proof (cases "elem_size vt")
  case None
  with assms show ?thesis by (simp add: os_SafeArrayCreate_def)
next
  case (Some cb)
  show ?thesis
  proof (cases "dims \<noteq> 1 \<or> limit w < brk w + desc_size + unat (cElements b) * cb")
    case True
    with assms Some show ?thesis by (auto simp add: os_SafeArrayCreate_def split: if_splits)
  next
    case False
    with assms Some show ?thesis by (auto simp add: os_SafeArrayCreate_def)
  qed
qed



lemma Call_cases:
  obtains r out e w1 where "Call w dll name args = ((r, out, e), w1)"
  by (cases "Call w dll name args") auto

lemma Call_SafeArrayCreate:
  "Call w ''OleAut32.dll'' ''SafeArrayCreate'' [Val vt, Val dims, InBound b] = ((r, out, e), w') \<Longrightarrow>
   \<exists>w2. os_SafeArrayCreate (w\<lparr>calls := calls w @ [(Proc ''OleAut32.dll'' ''SafeArrayCreate'', [Val vt, Val dims, InBound b])]\<rparr>) vt dims b = ((r, out), w2)
      \<and> next_errno w2 = (e, w')"
  by (auto simp: Call_def split: prod.splits)

lemma SafeArrayCreate_Inr:
  assumes "SafeArrayCreate w vt dims b = (Inr a, w')"
  shows "\<exists>cb. elem_size vt = Some cb \<and> dims = 1 \<and> a = brk w \<and> a \<noteq> 0 \<and>
     arrays w' = (arrays w)(a \<mapsto> \<lparr>cDims = 1, fFeatures = 128, cbElements = of_nat cb, cLocks = 0,
                    pvData = a + desc_size, rgsabound = b\<rparr>) \<and>
     mem w' = zero_fill (mem w) (a + desc_size) (unat (cElements b) * cb) \<and>
     calls w' = calls w @ [(Proc ''OleAut32.dll'' ''SafeArrayCreate'', [Val vt, Val (unat dims), InBound b])]"
proof -
  obtain r out e w1 where c: "Call w ''OleAut32.dll'' ''SafeArrayCreate'' [Val vt, Val (unat dims), InBound b] = ((r, out, e), w1)"
    by (rule Call_cases)
  with assms have r: "r \<noteq> 0" "e = 0" "a = r" "w' = w1"
    by (auto simp: SafeArrayCreate_def split: if_splits)
  from Call_SafeArrayCreate[OF c] obtain w2 where
    o: "os_SafeArrayCreate (w\<lparr>calls := calls w @ [(Proc ''OleAut32.dll'' ''SafeArrayCreate'', [Val vt, Val (unat dims), InBound b])]\<rparr>) vt (unat dims) b = ((r, out), w2)"
    and n: "next_errno w2 = (e, w1)" by auto
  from os_SafeArrayCreate_ok[OF o r(1)] obtain cb where
    cb: "elem_size vt = Some cb" "unat dims = 1" "r = brk w"
      "arrays w2 = (arrays w)(brk w \<mapsto> \<lparr>cDims = 1, fFeatures = 128, cbElements = of_nat cb, cLocks = 0,
                    pvData = brk w + desc_size, rgsabound = b\<rparr>)"
      "mem w2 = zero_fill (mem w) (brk w + desc_size) (unat (cElements b) * cb)"
      "calls w2 = calls w @ [(Proc ''OleAut32.dll'' ''SafeArrayCreate'', [Val vt, Val (unat dims), InBound b])]"
    by auto
  from cb(2) have "dims = 1" by (subst word_unat_eq_iff) simp
  with cb r next_errno_fields[OF n] show ?thesis by simp
qed

lemma Call_RtlCopyMemory:
  "Call w ''ntdll.dll'' ''RtlCopyMemory'' [Val dst, InBytes src, Val n] = ((r, out, e), w') \<Longrightarrow>
     mem w' = write_bytes (mem w) dst (take n src) \<and> arrays w' = arrays w \<and>
     calls w' = calls w @ [(Proc ''ntdll.dll'' ''RtlCopyMemory'', [Val dst, InBytes src, Val n])]"
  by (auto simp: Call_def os_RtlCopyMemory_def split: prod.splits dest!: next_errno_fields)

lemma CreateSafeArray_empty:
  "SafeArrayCreate w VT_UI1 1 \<lparr>cElements = of_nat (length B), lLbound = 0\<rparr> = (Inr a1, w1) \<Longrightarrow>
   arrays w1 a1 = Some d \<Longrightarrow> B = [] \<Longrightarrow>
   CreateSafeArray w B = (Inl (Panic ''index out of range [0] with length 0''), w1)"
  by (simp add: CreateSafeArray_def)

lemma CreateSafeArray_nonempty:
  "SafeArrayCreate w VT_UI1 1 \<lparr>cElements = of_nat (length B), lLbound = 0\<rparr> = (Inr a1, w1) \<Longrightarrow>
   arrays w1 a1 = Some d \<Longrightarrow> B \<noteq> [] \<Longrightarrow>
   Call w1 ''ntdll.dll'' ''RtlCopyMemory'' [Val (pvData d), InBytes B, Val (length B)] = ((r, out, e), w2) \<Longrightarrow>
   CreateSafeArray w B = (if e \<noteq> 0 then (Inl (Errno e), w2) else (Inr a1, w2))"
  by (simp add: CreateSafeArray_def)

lemma CreateSafeArray_fail:
  "SafeArrayCreate w VT_UI1 1 \<lparr>cElements = of_nat (length B), lLbound = 0\<rparr> = (Inl e, w1) \<Longrightarrow>
   CreateSafeArray w B = (Inl e, w1)"
  by (simp add: CreateSafeArray_def)

lemma CreateSafeArray_Inr:
  assumes "CreateSafeArray w B = (Inr a, w')"
  shows "B \<noteq> [] \<and> a = brk w \<and> a \<noteq> 0 \<and>
     arrays w' = (arrays w)(a \<mapsto> \<lparr>cDims = 1, fFeatures = 128, cbElements = 1, cLocks = 0,
                    pvData = a + desc_size, rgsabound = \<lparr>cElements = of_nat (length B), lLbound = 0\<rparr>\<rparr>) \<and>
     mem w' = write_bytes (zero_fill (mem w) (a + desc_size) (unat (of_nat (length B) :: 32 word))) (a + desc_size) B \<and>
     calls w' = calls w @
       [(Proc ''OleAut32.dll'' ''SafeArrayCreate'', [Val VT_UI1, Val 1, InBound \<lparr>cElements = of_nat (length B), lLbound = 0\<rparr>]),
        (Proc ''ntdll.dll'' ''RtlCopyMemory'', [Val (a + desc_size), InBytes B, Val (length B)])]"
proof -
  let ?b = "\<lparr>cElements = of_nat (length B) :: 32 word, lLbound = 0\<rparr>"
  let ?d = "\<lambda>a1::nat. \<lparr>cDims = 1, fFeatures = 128, cbElements = 1, cLocks = 0,
                    pvData = a1 + desc_size, rgsabound = ?b\<rparr>"
  obtain x w1 where s: "SafeArrayCreate w VT_UI1 1 ?b = (x, w1)" by (cases "SafeArrayCreate w VT_UI1 1 ?b")
  have "\<exists>a1. x = Inr a1"
  proof (cases x)
    case (Inl e)
    with CreateSafeArray_fail[of w B e w1] s assms show ?thesis by simp
  qed simp
  then obtain a1 where x: "x = Inr a1" ..
  note s' = s[unfolded x]
  from SafeArrayCreate_Inr[OF s'] have
    f: "a1 = brk w" "a1 \<noteq> 0"
       "arrays w1 = (arrays w)(a1 \<mapsto> ?d a1)"
       "mem w1 = zero_fill (mem w) (a1 + desc_size) (unat (of_nat (length B) :: 32 word))"
       "calls w1 = calls w @ [(Proc ''OleAut32.dll'' ''SafeArrayCreate'', [Val VT_UI1, Val 1, InBound ?b])]"
    by (auto simp: VT_UI1_def elem_size_def)
  from f(3) have d: "arrays w1 a1 = Some (?d a1)" by simp
  have ne: "B \<noteq> []"
  proof
    assume "B = []"
    from CreateSafeArray_empty[OF s' d this] assms show False by simp
  qed
  obtain r out e w2 where c: "Call w1 ''ntdll.dll'' ''RtlCopyMemory'' [Val (pvData (?d a1)), InBytes B, Val (length B)] = ((r, out, e), w2)"
    by (rule Call_cases)
  from CreateSafeArray_nonempty[OF s' d ne c] assms have e: "a = a1" "w' = w2"
    by (auto split: if_splits)
  from c have c': "Call w1 ''ntdll.dll'' ''RtlCopyMemory'' [Val (a1 + desc_size), InBytes B, Val (length B)] = ((r, out, e), w2)"
    by simp
  from Call_RtlCopyMemory[OF c'] f e ne show ?thesis by simp
qed

lemma native_proc_errnos: "native_proc w name args = (x, w') \<Longrightarrow> errnos w' = errnos w \<and> limit w' = limit w"
  by (induction w name args rule: native_proc.induct)
     (auto simp: os_SafeArrayCreate_def os_RtlCopyMemory_def os_SafeArrayGetDim_def os_SafeArrayLock_def
        os_SafeArrayGetLBound_def os_SafeArrayGetUBound_def os_SafeArrayGetElement_def
        split: option.splits if_splits)

lemma SafeArrayCreate_ok:
  assumes "elem_size vt = Some cb" "0 < brk w" "brk w + desc_size + unat (cElements b) * cb \<le> limit w"
    "pending_errno w = 0"
  shows "\<exists>w'. SafeArrayCreate w vt 1 b = (Inr (brk w), w') \<and> errnos w' = tl (errnos w) \<and> limit w' = limit w
           \<and> brk w' = brk w + desc_size + unat (cElements b) * cb"
  using assms
  by (cases "errnos w")
     (auto simp: SafeArrayCreate_def Call_def os_SafeArrayCreate_def next_errno_def pending_errno_def)

lemma elements_written:
  assumes "length B < 2 ^ 32" "mem w = write_bytes m p B" "pvData d = p"
     "cElements (rgsabound d) = (of_nat (length B) :: 32 word)"
  shows "elements w d = map Some B"
proof -
  from assms(1) have u: "unat (of_nat (length B) :: 32 word) = length B"
    by (simp add: unat_of_nat)
  show ?thesis
    by (rule nth_equalityI) (simp_all add: elements_def assms u write_bytes_def)
qed

lemma CreateSafeArray_ok:
  assumes "B \<noteq> []" "length B < 2 ^ 32" "0 < brk w" "brk w + desc_size + length B \<le> limit w"
    "\<forall>e \<in> set (take 2 (errnos w)). e = 0"
  shows "\<exists>w'. CreateSafeArray w B = (Inr (brk w), w')"
proof -
  let ?b = "\<lparr>cElements = of_nat (length B) :: 32 word, lLbound = 0\<rparr>"
  from assms(2) have u: "unat (of_nat (length B) :: 32 word) = length B"
    by (simp add: unat_of_nat)
  from assms(5) have p: "pending_errno w = 0"
    by (cases "errnos w") (auto simp: pending_errno_def)
  have "elem_size VT_UI1 = Some 1" by (simp add: elem_size_def VT_UI1_def)
  from SafeArrayCreate_ok[OF this assms(3) _ p, of ?b] assms(4) u
  obtain w1 where s: "SafeArrayCreate w VT_UI1 1 ?b = (Inr (brk w), w1)" and e: "errnos w1 = tl (errnos w)"
    by auto
  from SafeArrayCreate_Inr[OF s] obtain d where d: "arrays w1 (brk w) = Some d" by auto
  obtain r out e2 w2 where c: "Call w1 ''ntdll.dll'' ''RtlCopyMemory'' [Val (pvData d), InBytes B, Val (length B)] = ((r, out, e2), w2)"
    by (rule Call_cases)
  from assms(5) e have "pending_errno w1 = 0"
    by (cases "errnos w"; cases "tl (errnos w)") (auto simp: pending_errno_def)
  with c have "e2 = 0"
    by (cases "errnos w1")
       (auto simp: Call_def next_errno_def pending_errno_def os_RtlCopyMemory_def split: prod.splits)
  with CreateSafeArray_nonempty[OF s d assms(1) c] show ?thesis by simp
qed

text \<open>
  C1 (amended). For every non-empty byte sequence \<open>B\<close> of fewer than 2^32 bytes:
  when there is room for the array and the two native calls leave no last-error value,
  \<open>CreateSafeArray\<close> returns a descriptor; and whenever it returns one, the descriptor
  records \<open>length B\<close> elements from lower bound 0, its storage holds the bytes of \<open>B\<close>
  in order, and the native calls made were one \<open>SafeArrayCreate\<close> followed by exactly
  one \<open>RtlCopyMemory\<close> of \<open>length B\<close> bytes from \<open>B\<close> to the storage.
\<close>

theorem CreateSafeArray_roundtrip:
  assumes "B \<noteq> []" and "length B < 2 ^ 32"
  shows "(0 < brk w \<and> brk w + desc_size + length B \<le> limit w \<and> (\<forall>e \<in> set (take 2 (errnos w)). e = 0)
            \<longrightarrow> (\<exists>w'. CreateSafeArray w B = (Inr (brk w), w')))
       \<and> (\<forall>a w'. CreateSafeArray w B = (Inr a, w') \<longrightarrow>
             (\<exists>d. arrays w' a = Some d \<and> element_count w' a = Some (length B)
                \<and> lLbound (rgsabound d) = 0 \<and> elements w' d = map Some B
                \<and> calls w' = calls w @
                    [(Proc ''OleAut32.dll'' ''SafeArrayCreate'',
                        [Val VT_UI1, Val 1, InBound \<lparr>cElements = of_nat (length B), lLbound = 0\<rparr>]),
                     (Proc ''ntdll.dll'' ''RtlCopyMemory'', [Val (pvData d), InBytes B, Val (length B)])]))"
proof (intro conjI allI impI)
  assume "0 < brk w \<and> brk w + desc_size + length B \<le> limit w \<and> (\<forall>e \<in> set (take 2 (errnos w)). e = 0)"
  with assms show "\<exists>w'. CreateSafeArray w B = (Inr (brk w), w')"
    by (intro CreateSafeArray_ok) simp_all
next
  fix a w'
  assume r: "CreateSafeArray w B = (Inr a, w')"
  let ?d = "\<lparr>cDims = 1, fFeatures = 128, cbElements = 1, cLocks = 0, pvData = a + desc_size,
             rgsabound = \<lparr>cElements = of_nat (length B) :: 32 word, lLbound = 0\<rparr>\<rparr>"
  from assms(2) have u: "unat (of_nat (length B) :: 32 word) = length B"
    by (simp add: unat_of_nat)
  note f = CreateSafeArray_Inr[OF r]
  from f have d: "arrays w' a = Some ?d" by simp
  from f have m: "mem w' = write_bytes (zero_fill (mem w) (a + desc_size) (unat (of_nat (length B) :: 32 word))) (a + desc_size) B"
    by simp
  have el: "elements w' ?d = map Some B"
    by (rule elements_written[OF assms(2) m]) simp_all
  have ec: "element_count w' a = Some (length B)"
    by (simp add: element_count_def d u)
  from f have cl: "calls w' = calls w @
       [(Proc ''OleAut32.dll'' ''SafeArrayCreate'', [Val VT_UI1, Val 1, InBound \<lparr>cElements = of_nat (length B), lLbound = 0\<rparr>]),
        (Proc ''ntdll.dll'' ''RtlCopyMemory'', [Val (pvData ?d), InBytes B, Val (length B)])]"
    by simp
  show "\<exists>d. arrays w' a = Some d \<and> element_count w' a = Some (length B)
                \<and> lLbound (rgsabound d) = 0 \<and> elements w' d = map Some B
                \<and> calls w' = calls w @
                    [(Proc ''OleAut32.dll'' ''SafeArrayCreate'',
                        [Val VT_UI1, Val 1, InBound \<lparr>cElements = of_nat (length B), lLbound = 0\<rparr>]),
                     (Proc ''ntdll.dll'' ''RtlCopyMemory'', [Val (pvData d), InBytes B, Val (length B)])]"
    by (rule exI[of _ ?d]) (simp only: d ec el cl, simp)
qed

text \<open>The theorem at the bytes 1, 2, 3 in the process \<open>w0\<close>.\<close>

theorem CreateSafeArray_roundtrip_witness:
  "[1, 2, 3 :: byte] \<noteq> [] \<and> length [1, 2, 3 :: byte] < 2 ^ 32
   \<and> fst (CreateSafeArray w0 [1, 2, 3]) = Inr 4096
   \<and> element_count (snd (CreateSafeArray w0 [1, 2, 3])) 4096 = Some 3"
proof -
  have h: "[1, 2, 3 :: byte] \<noteq> []" "length [1, 2, 3 :: byte] < 2 ^ 32" by simp_all
  note t = CreateSafeArray_roundtrip[OF h, of w0]
  have "0 < brk w0 \<and> brk w0 + desc_size + length [1, 2, 3 :: byte] \<le> limit w0 \<and> (\<forall>e \<in> set (take 2 (errnos w0)). e = 0)"
    by (simp add: w0_def desc_size_def)
  with t obtain w' where c: "CreateSafeArray w0 [1, 2, 3] = (Inr (brk w0), w')" by auto
  with t have "element_count w' (brk w0) = Some (length [1, 2, 3 :: byte])" by auto
  with c h show ?thesis by (simp add: w0_def)
qed

text \<open>
  C1 as stated fails for a buffer of 2^32 bytes: \<open>uint32(len(rawBytes))\<close> is 0, so the
  descriptor records no elements, although the buffer has 4294967296.
\<close>

theorem CreateSafeArray_truncates_count:
  "fst (CreateSafeArray w0 (replicate 4294967296 0)) = Inr 4096
   \<and> element_count (snd (CreateSafeArray w0 (replicate 4294967296 0))) 4096 = Some 0
   \<and> length (replicate 4294967296 (0 :: byte)) = 4294967296"
  by (simp add: CreateSafeArray_def SafeArrayCreate_def Call_def os_SafeArrayCreate_def
        os_RtlCopyMemory_def elem_size_def next_errno_def w0_def VT_UI1_def desc_size_def
        element_count_def)

lemma SafeArrayCreate_Inl:
  "SafeArrayCreate w vt dims b = (Inl e, w1) \<Longrightarrow> (\<exists>n. e = Errno n) \<or> (\<exists>s n. e = Errorf s n)"
  by (rule Call_cases[of w "''OleAut32.dll''" "''SafeArrayCreate''" "[Val vt, Val (unat dims), InBound b]"])
     (auto simp: SafeArrayCreate_def split: if_splits)

lemma SafeArrayGetDim_result:
  assumes "arrays w a = Some d"
  shows "fst (SafeArrayGetDim w a) =
           (if pending_errno w \<noteq> 0
            then Inl (Errorf_s ''the oleaut32!SafeArrayGetDim function call returned an error''
                        (errtext w (pending_errno w)))
            else Inr (of_nat (unat (cDims d))))"
  by (cases "errnos w")
     (simp_all add: SafeArrayGetDim_def Call_def os_SafeArrayGetDim_def next_errno_def
        pending_errno_def assms)

text \<open>
  C5. Every array that \<open>CreateSafeArray\<close> builds has one dimension, lower bound 0 and the
  length that \<open>CreateSafeArray\<close> requests for it, \<open>uint32(len(rawBytes))\<close>, which is the
  length of the buffer whenever that is below 2^32; its element size is the one byte that
  the element kind \<open>VT_UI1\<close> fixes; and \<open>SafeArrayGetDim\<close> on it reports 1 dimension,
  unless the call leaves a last-error value, in which case \<open>SafeArrayGetDim\<close> reports an
  error and no count (first part). The same holds of every array that \<open>SafeArrayCreate\<close>
  builds for any element kind when it is asked, as \<open>CreateSafeArray\<close> asks it, for one
  dimension, lower bound 0 and a length \<open>n\<close> (second part).
\<close>

theorem createArray_one_dimensional:
  "(CreateSafeArray w B = (Inr a, w') \<longrightarrow>
      (\<exists>d. arrays w' a = Some d \<and> cDims d = 1 \<and> lLbound (rgsabound d) = 0
         \<and> cElements (rgsabound d) = of_nat (length B)
         \<and> (length B < 2 ^ 32 \<longrightarrow> unat (cElements (rgsabound d)) = length B)
         \<and> elem_size VT_UI1 = Some (unat (cbElements d))
         \<and> fst (SafeArrayGetDim w' a) =
             (if pending_errno w' \<noteq> 0
              then Inl (Errorf_s ''the oleaut32!SafeArrayGetDim function call returned an error''
                          (errtext w' (pending_errno w')))
              else Inr 1)))
   \<and> (SafeArrayCreate w vt 1 \<lparr>cElements = n, lLbound = 0\<rparr> = (Inr a, w') \<longrightarrow>
      (\<exists>d cb. arrays w' a = Some d \<and> cDims d = 1 \<and> lLbound (rgsabound d) = 0
         \<and> cElements (rgsabound d) = n \<and> elem_size vt = Some cb \<and> cbElements d = of_nat cb
         \<and> fst (SafeArrayGetDim w' a) =
             (if pending_errno w' \<noteq> 0
              then Inl (Errorf_s ''the oleaut32!SafeArrayGetDim function call returned an error''
                          (errtext w' (pending_errno w')))
              else Inr 1)))"
proof (intro conjI impI)
  assume h: "CreateSafeArray w B = (Inr a, w')"
  let ?d = "\<lparr>cDims = 1, fFeatures = 128, cbElements = 1, cLocks = 0, pvData = a + desc_size,
             rgsabound = \<lparr>cElements = of_nat (length B) :: 32 word, lLbound = 0\<rparr>\<rparr>"
  from CreateSafeArray_Inr[OF h] have d: "arrays w' a = Some ?d" by simp
  have u: "length B < 2 ^ 32 \<longrightarrow> unat (of_nat (length B) :: 32 word) = length B"
    by (simp add: unat_of_nat)
  have k: "elem_size VT_UI1 = Some (unat (1 :: 32 word))"
    by (simp add: elem_size_def VT_UI1_def)
  from SafeArrayGetDim_result[OF d]
  have g: "fst (SafeArrayGetDim w' a) =
             (if pending_errno w' \<noteq> 0
              then Inl (Errorf_s ''the oleaut32!SafeArrayGetDim function call returned an error''
                          (errtext w' (pending_errno w')))
              else Inr 1)"
    by simp
  show "\<exists>d. arrays w' a = Some d \<and> cDims d = 1 \<and> lLbound (rgsabound d) = 0
         \<and> cElements (rgsabound d) = of_nat (length B)
         \<and> (length B < 2 ^ 32 \<longrightarrow> unat (cElements (rgsabound d)) = length B)
         \<and> elem_size VT_UI1 = Some (unat (cbElements d))
         \<and> fst (SafeArrayGetDim w' a) =
             (if pending_errno w' \<noteq> 0
              then Inl (Errorf_s ''the oleaut32!SafeArrayGetDim function call returned an error''
                          (errtext w' (pending_errno w')))
              else Inr 1)"
    by (rule exI[of _ ?d]) (simp only: d g, simp add: u k)
next
  assume h: "SafeArrayCreate w vt 1 \<lparr>cElements = n, lLbound = 0\<rparr> = (Inr a, w')"
  from SafeArrayCreate_Inr[OF h] obtain cb where
    cb: "elem_size vt = Some cb"
    and d: "arrays w' a = Some \<lparr>cDims = 1, fFeatures = 128, cbElements = of_nat cb, cLocks = 0,
                    pvData = a + desc_size, rgsabound = \<lparr>cElements = n, lLbound = 0\<rparr>\<rparr>"
    by auto
  from SafeArrayGetDim_result[OF d] cb d
  show "\<exists>d cb. arrays w' a = Some d \<and> cDims d = 1 \<and> lLbound (rgsabound d) = 0
         \<and> cElements (rgsabound d) = n \<and> elem_size vt = Some cb \<and> cbElements d = of_nat cb
         \<and> fst (SafeArrayGetDim w' a) =
             (if pending_errno w' \<noteq> 0
              then Inl (Errorf_s ''the oleaut32!SafeArrayGetDim function call returned an error''
                          (errtext w' (pending_errno w')))
              else Inr 1)"
    by simp
qed

text \<open>
  The theorem for the buffer of the bytes 1, 2, 3 in the process \<open>w0\<close>, and for three
  byte elements asked of \<open>SafeArrayCreate\<close> there.
\<close>

theorem createArray_one_dimensional_witness:
  "fst (CreateSafeArray w0 [1, 2, 3]) = Inr 4096
   \<and> length [1, 2, 3 :: byte] < 2 ^ 32
   \<and> element_count (snd (CreateSafeArray w0 [1, 2, 3])) 4096 = Some 3
   \<and> fst (SafeArrayGetDim (snd (CreateSafeArray w0 [1, 2, 3])) 4096) = Inr 1
   \<and> fst (SafeArrayCreate w0 VT_UI1 1 \<lparr>cElements = 3, lLbound = 0\<rparr>) = Inr 4096
   \<and> fst (SafeArrayGetDim (snd (SafeArrayCreate w0 VT_UI1 1 \<lparr>cElements = 3, lLbound = 0\<rparr>)) 4096) = Inr 1"
proof -
  let ?c = "CreateSafeArray w0 [1, 2, 3]"
  let ?r = "SafeArrayCreate w0 VT_UI1 1 \<lparr>cElements = 3, lLbound = 0\<rparr>"
  have fc: "fst ?c = Inr 4096"
    by (simp add: CreateSafeArray_def SafeArrayCreate_def Call_def os_SafeArrayCreate_def
        os_RtlCopyMemory_def elem_size_def next_errno_def w0_def VT_UI1_def desc_size_def)
  have pc: "pending_errno (snd ?c) = 0"
    by (simp add: CreateSafeArray_def SafeArrayCreate_def Call_def os_SafeArrayCreate_def
        os_RtlCopyMemory_def elem_size_def next_errno_def w0_def VT_UI1_def desc_size_def
        pending_errno_def)
  have f: "fst ?r = Inr 4096"
    by (simp add: SafeArrayCreate_def Call_def os_SafeArrayCreate_def elem_size_def next_errno_def
        w0_def VT_UI1_def desc_size_def)
  have p: "pending_errno (snd ?r) = 0"
    by (simp add: SafeArrayCreate_def Call_def os_SafeArrayCreate_def elem_size_def next_errno_def
        w0_def VT_UI1_def desc_size_def pending_errno_def)
  from fc have ec: "?c = (Inr 4096, snd ?c)" by (simp add: prod_eq_iff)
  from f have er: "?r = (Inr 4096, snd ?r)" by (simp add: prod_eq_iff)
  note t1 = createArray_one_dimensional[where w = w0 and B = "[1, 2, 3]" and a = 4096 and w' = "snd ?c"]
  note t2 = createArray_one_dimensional[where w = w0 and vt = VT_UI1 and n = 3 and a = 4096 and w' = "snd ?r"]
  from conjunct1[OF t1, rule_format, OF ec] obtain d where
    d: "arrays (snd ?c) 4096 = Some d" "length [1, 2, 3 :: byte] < 2 ^ 32 \<longrightarrow> unat (cElements (rgsabound d)) = length [1, 2, 3 :: byte]"
    and g: "fst (SafeArrayGetDim (snd ?c) 4096) =
             (if pending_errno (snd ?c) \<noteq> 0
              then Inl (Errorf_s ''the oleaut32!SafeArrayGetDim function call returned an error''
                          (errtext (snd ?c) (pending_errno (snd ?c))))
              else Inr 1)"
    by (elim exE conjE)
  from d have n: "element_count (snd ?c) 4096 = Some 3" by (simp add: element_count_def)
  from g pc have gc: "fst (SafeArrayGetDim (snd ?c) 4096) = Inr 1" by simp
  from conjunct2[OF t2, rule_format, OF er] p
  have gr: "fst (SafeArrayGetDim (snd ?r) 4096) = Inr 1" by (elim exE conjE) simp
  from fc n gc f gr show ?thesis by simp
qed

text \<open>
  C8 (amended). For the empty byte sequence \<open>CreateSafeArray\<close> never returns a
  descriptor: when \<open>SafeArrayCreate\<close> has built the array, it panics on the address of
  element 0 of the input; when \<open>SafeArrayCreate\<close> fails, it returns that error. For a
  non-empty input the access to element 0 does not panic.
\<close>

theorem CreateSafeArray_empty_input:
  "(\<forall>a. fst (CreateSafeArray w []) \<noteq> Inr a)
   \<and> (\<forall>a w1. SafeArrayCreate w VT_UI1 1 \<lparr>cElements = 0, lLbound = 0\<rparr> = (Inr a, w1) \<longrightarrow>
         CreateSafeArray w [] = (Inl (Panic ''index out of range [0] with length 0''), w1))
   \<and> (\<forall>e w1. SafeArrayCreate w VT_UI1 1 \<lparr>cElements = 0, lLbound = 0\<rparr> = (Inl e, w1) \<longrightarrow>
         CreateSafeArray w [] = (Inl e, w1))
   \<and> (B \<noteq> [] \<longrightarrow> fst (CreateSafeArray w B) \<noteq> Inl (Panic ''index out of range [0] with length 0''))"
proof (intro conjI allI impI)
  fix a
  show "fst (CreateSafeArray w []) \<noteq> Inr a"
  proof
    assume "fst (CreateSafeArray w []) = Inr a"
    then have "CreateSafeArray w [] = (Inr a, snd (CreateSafeArray w []))" by (simp add: prod_eq_iff)
    from CreateSafeArray_Inr[OF this] show False by simp
  qed
next
  fix a w1
  assume s: "SafeArrayCreate w VT_UI1 1 \<lparr>cElements = 0, lLbound = 0\<rparr> = (Inr a, w1)"
  from SafeArrayCreate_Inr[OF s] obtain d where d: "arrays w1 a = Some d" by auto
  from s have "SafeArrayCreate w VT_UI1 1 \<lparr>cElements = of_nat (length ([] :: byte list)), lLbound = 0\<rparr> = (Inr a, w1)"
    by simp
  from CreateSafeArray_empty[OF this d]
  show "CreateSafeArray w [] = (Inl (Panic ''index out of range [0] with length 0''), w1)" by simp
next
  fix e w1
  assume s: "SafeArrayCreate w VT_UI1 1 \<lparr>cElements = 0, lLbound = 0\<rparr> = (Inl e, w1)"
  then have "SafeArrayCreate w VT_UI1 1 \<lparr>cElements = of_nat (length ([] :: byte list)), lLbound = 0\<rparr> = (Inl e, w1)"
    by simp
  from CreateSafeArray_fail[OF this] show "CreateSafeArray w [] = (Inl e, w1)" .
next
  assume ne: "B \<noteq> []"
  let ?b = "\<lparr>cElements = of_nat (length B) :: 32 word, lLbound = 0\<rparr>"
  obtain x w1 where s: "SafeArrayCreate w VT_UI1 1 ?b = (x, w1)" by (cases "SafeArrayCreate w VT_UI1 1 ?b")
  show "fst (CreateSafeArray w B) \<noteq> Inl (Panic ''index out of range [0] with length 0'')"
  proof (cases x)
    case (Inl e)
    with SafeArrayCreate_Inl[of w VT_UI1 1 ?b e w1] s CreateSafeArray_fail[of w B e w1]
    show ?thesis by auto
  next
    case (Inr a)
    note s' = s[unfolded Inr]
    from SafeArrayCreate_Inr[OF s'] obtain d where d: "arrays w1 a = Some d" by auto
    obtain r out e w2 where c: "Call w1 ''ntdll.dll'' ''RtlCopyMemory'' [Val (pvData d), InBytes B, Val (length B)] = ((r, out, e), w2)"
      by (rule Call_cases)
    from CreateSafeArray_nonempty[OF s' d ne c] show ?thesis by simp
  qed
qed

text \<open>
  The theorem in the process \<open>w0\<close>, where the array is built, in \<open>w_err\<close>, where the
  first native call leaves last-error 5, and at the one-byte input.
\<close>

theorem CreateSafeArray_empty_input_witness:
  "fst (CreateSafeArray w0 []) = Inl (Panic ''index out of range [0] with length 0'')
   \<and> fst (CreateSafeArray w_err []) = Inl (Errno 5)
   \<and> [1 :: byte] \<noteq> []
   \<and> fst (CreateSafeArray w0 [1]) \<noteq> Inl (Panic ''index out of range [0] with length 0'')"
proof -
  let ?r = "SafeArrayCreate w0 VT_UI1 1 \<lparr>cElements = 0, lLbound = 0\<rparr>"
  let ?e = "SafeArrayCreate w_err VT_UI1 1 \<lparr>cElements = 0, lLbound = 0\<rparr>"
  have "fst ?r = Inr 4096"
    by (simp add: SafeArrayCreate_def Call_def os_SafeArrayCreate_def elem_size_def next_errno_def
        w0_def VT_UI1_def desc_size_def)
  then have r: "?r = (Inr 4096, snd ?r)" by (simp add: prod_eq_iff)
  have "fst ?e = Inl (Errno 5)"
    by (simp add: SafeArrayCreate_def Call_def os_SafeArrayCreate_def elem_size_def next_errno_def
        w0_def w_err_def VT_UI1_def desc_size_def)
  then have e: "?e = (Inl (Errno 5), snd ?e)" by (simp add: prod_eq_iff)
  note t = CreateSafeArray_empty_input[of w0 "[1]"]
  from t have "\<forall>a w1. ?r = (Inr a, w1) \<longrightarrow>
      CreateSafeArray w0 [] = (Inl (Panic ''index out of range [0] with length 0''), w1)"
    by (elim conjE)
  from this[rule_format, OF r]
  have 1: "fst (CreateSafeArray w0 []) = Inl (Panic ''index out of range [0] with length 0'')"
    by simp
  from t have 3: "fst (CreateSafeArray w0 [1]) \<noteq> Inl (Panic ''index out of range [0] with length 0'')"
    by simp
  from CreateSafeArray_empty_input[of w_err "[1]"]
  have "\<forall>e w1. ?e = (Inl e, w1) \<longrightarrow> CreateSafeArray w_err [] = (Inl e, w1)"
    by (elim conjE)
  from this[rule_format, OF e]
  have 2: "fst (CreateSafeArray w_err []) = Inl (Errno 5)" by simp
  from 1 2 3 show ?thesis by simp
qed

text \<open>
  C8 as stated fails when the first native call leaves a last-error value: the empty
  input then gets an error back instead of a fault.
\<close>

theorem CreateSafeArray_empty_returns_error:
  "fst (CreateSafeArray w_err []) = Inl (Errno 5)"
  by (simp add: CreateSafeArray_def SafeArrayCreate_def Call_def os_SafeArrayCreate_def
        elem_size_def next_errno_def w0_def w_err_def VT_UI1_def desc_size_def)

text \<open>
  C9. \<open>SafeArrayLock\<close> makes exactly one native call, to the procedure named
  \<open>SafeArrayCreate\<close> of OleAut32.dll with the array as its only argument; the procedure
  \<open>SafeArrayLock\<close> is never called, and no descriptor (so no lock count) changes.
\<close>

theorem SafeArrayLock_calls_SafeArrayCreate:
  "calls_since w (snd (SafeArrayLock w psa)) = [(Proc ''OleAut32.dll'' ''SafeArrayCreate'', [Val psa])]
   \<and> arrays (snd (SafeArrayLock w psa)) = arrays w"
  by (cases "errnos w")
     (simp_all add: SafeArrayLock_def Call_def next_errno_def calls_since_def S_OK_def)

section \<open>Calls into the hosted runtime\<close>

lemma SyscallN_cases:
  obtains r out e w1 where "SyscallN w iface slot args = ((r, out, e), w1)"
  by (cases "SyscallN w iface slot args") auto

lemma native_slot_fields:
  "native_slot w iface slot args = (x, w') \<Longrightarrow>
     calls w' = calls w \<and> errnos w' = errnos w \<and> com w' = com w \<and> bstrs w' = bstrs w
     \<and> arrays w' = arrays w \<and> mem w' = mem w"
  by (induction w iface slot args rule: native_slot.induct) (auto split: if_splits)

lemma SyscallN_calls:
  assumes "SyscallN w iface slot args = (x, w')"
  shows "calls w' = calls w @ [(Slot iface slot, args)]"
proof -
  obtain y w1 where n: "native_slot (w\<lparr>calls := calls w @ [(Slot iface slot, args)]\<rparr>) iface slot args = (y, w1)"
    by (cases "native_slot (w\<lparr>calls := calls w @ [(Slot iface slot, args)]\<rparr>) iface slot args")
  obtain e w2 where e: "next_errno w1 = (e, w2)" by (cases "next_errno w1")
  from assms n e have "w' = w2" by (cases y) (simp add: SyscallN_def)
  with native_slot_fields[OF n] next_errno_fields[OF e] show ?thesis by simp
qed

lemma SyscallN_calls_since:
  "SyscallN w iface slot args = (x, w') \<Longrightarrow> calls_since w w' = [(Slot iface slot, args)]"
  by (simp add: calls_since_def SyscallN_calls)

lemma native_slot_com:
  "slot \<noteq> ''AddRef'' \<Longrightarrow> slot \<noteq> ''Release'' \<Longrightarrow>
     native_slot w iface slot args = (com w iface slot args, w)"
  by (induction w iface slot args rule: native_slot.induct) auto

lemma SyscallN_com:
  assumes "slot \<noteq> ''AddRef''" "slot \<noteq> ''Release''"
  shows "fst (SyscallN w iface slot args) =
           (fst (com w iface slot args), snd (com w iface slot args), pending_errno w)"
  by (cases "errnos w"; cases "com w iface slot args")
     (simp_all add: SyscallN_def native_slot_com[OF assms] next_errno_def pending_errno_def)

lemma Start_result:
  "fst (ICORRuntimeHost_Start w obj) =
     (if fst (com w ''ICORRuntimeHost'' ''Start'' [Val obj]) \<noteq> S_OK
      then Inl (Errorf ''the ICORRuntimeHost::Start method method returned a non-zero HRESULT''
                  (fst (com w ''ICORRuntimeHost'' ''Start'' [Val obj])))
      else Inr ())"
proof -
  obtain r out e w1 where c: "SyscallN w ''ICORRuntimeHost'' ''Start'' [Val obj] = ((r, out, e), w1)"
    by (rule SyscallN_cases)
  have "fst (SyscallN w ''ICORRuntimeHost'' ''Start'' [Val obj]) =
      (fst (com w ''ICORRuntimeHost'' ''Start'' [Val obj]), snd (com w ''ICORRuntimeHost'' ''Start'' [Val obj]), pending_errno w)"
    by (rule SyscallN_com) simp_all
  with c have "r = fst (com w ''ICORRuntimeHost'' ''Start'' [Val obj])" by simp
  with c show ?thesis by (simp add: ICORRuntimeHost_Start_def)
qed

lemma GetDefaultDomain_result:
  "fst (ICORRuntimeHost_GetDefaultDomain w obj) =
     (if fst (com w ''ICORRuntimeHost'' ''GetDefaultDomain'' [Val obj, OutVar ''IUnknown'']) \<noteq> S_OK
      then Inl (Errorf ''the ICORRuntimeHost::GetDefaultDomain method method returned a non-zero HRESULT''
                  (fst (com w ''ICORRuntimeHost'' ''GetDefaultDomain'' [Val obj, OutVar ''IUnknown''])))
      else Inr (out_ptr (snd (com w ''ICORRuntimeHost'' ''GetDefaultDomain'' [Val obj, OutVar ''IUnknown'']))))"
proof -
  let ?a = "[Val obj, OutVar ''IUnknown'']"
  obtain r out e w1 where c: "SyscallN w ''ICORRuntimeHost'' ''GetDefaultDomain'' ?a = ((r, out, e), w1)"
    by (rule SyscallN_cases)
  have "fst (SyscallN w ''ICORRuntimeHost'' ''GetDefaultDomain'' ?a) =
      (fst (com w ''ICORRuntimeHost'' ''GetDefaultDomain'' ?a), snd (com w ''ICORRuntimeHost'' ''GetDefaultDomain'' ?a), pending_errno w)"
    by (rule SyscallN_com) simp_all
  with c have "r = fst (com w ''ICORRuntimeHost'' ''GetDefaultDomain'' ?a)"
     "out = snd (com w ''ICORRuntimeHost'' ''GetDefaultDomain'' ?a)" by simp_all
  with c show ?thesis by (simp add: ICORRuntimeHost_GetDefaultDomain_def)
qed

lemma Load_3_result:
  "fst (AppDomain_Load_3 w obj raw) =
     (if pending_errno w \<noteq> 0 \<and> pending_errno w \<noteq> 1150 then Inl (Errno (pending_errno w))
      else if fst (com w ''AppDomain'' ''Load_3'' [Val obj, Val raw, OutVar ''assembly'']) \<noteq> S_OK
      then Inl (Errorf ''the appdomain.Load_3 function returned a non-zero HRESULT''
                  (fst (com w ''AppDomain'' ''Load_3'' [Val obj, Val raw, OutVar ''assembly''])))
      else Inr (out_ptr (snd (com w ''AppDomain'' ''Load_3'' [Val obj, Val raw, OutVar ''assembly'']))))"
proof -
  let ?a = "[Val obj, Val raw, OutVar ''assembly'']"
  obtain r out e w1 where c: "SyscallN w ''AppDomain'' ''Load_3'' ?a = ((r, out, e), w1)"
    by (rule SyscallN_cases)
  have "fst (SyscallN w ''AppDomain'' ''Load_3'' ?a) =
      (fst (com w ''AppDomain'' ''Load_3'' ?a), snd (com w ''AppDomain'' ''Load_3'' ?a), pending_errno w)"
    by (rule SyscallN_com) simp_all
  with c have "r = fst (com w ''AppDomain'' ''Load_3'' ?a)"
     "out = snd (com w ''AppDomain'' ''Load_3'' ?a)" "e = pending_errno w" by simp_all
  with c show ?thesis by (simp add: AppDomain_Load_3_def)
qed

text \<open>
  C3 (amended). After a call through the method table, \<open>Load_3\<close> ignores the last-error
  value 1150 and no other: any other non-zero value is returned to the caller as it is,
  and with 1150 and status 0 the call succeeds. \<open>Start\<close> and \<open>GetDefaultDomain\<close> ignore
  every last-error value: with status 0 they succeed whatever the last-error value is.
\<close>

theorem dispatch_error_tolerance:
  "(pending_errno w \<noteq> 0 \<and> pending_errno w \<noteq> 1150 \<longrightarrow>
      fst (AppDomain_Load_3 w obj raw) = Inl (Errno (pending_errno w)))
   \<and> (pending_errno w = 1150 \<and> fst (com w ''AppDomain'' ''Load_3'' [Val obj, Val raw, OutVar ''assembly'']) = S_OK \<longrightarrow>
      fst (AppDomain_Load_3 w obj raw) =
        Inr (out_ptr (snd (com w ''AppDomain'' ''Load_3'' [Val obj, Val raw, OutVar ''assembly'']))))
   \<and> (fst (com w ''ICORRuntimeHost'' ''Start'' [Val obj]) = S_OK \<longrightarrow>
      fst (ICORRuntimeHost_Start w obj) = Inr ())
   \<and> (fst (com w ''ICORRuntimeHost'' ''GetDefaultDomain'' [Val obj, OutVar ''IUnknown'']) = S_OK \<longrightarrow>
      fst (ICORRuntimeHost_GetDefaultDomain w obj) =
        Inr (out_ptr (snd (com w ''ICORRuntimeHost'' ''GetDefaultDomain'' [Val obj, OutVar ''IUnknown'']))))"
  by (simp add: Load_3_result Start_result GetDefaultDomain_result)

text \<open>
  The theorem in the process \<open>w_err\<close> (last-error 5) and in \<open>w_1150\<close> (last-error 1150),
  where every slot answers status 0.
\<close>

theorem dispatch_error_tolerance_witness:
  "pending_errno w_err = 5
   \<and> fst (AppDomain_Load_3 w_err 8192 4096) = Inl (Errno 5)
   \<and> fst (ICORRuntimeHost_Start w_err 8192) = Inr ()
   \<and> fst (ICORRuntimeHost_GetDefaultDomain w_err 8192) = Inr 0
   \<and> pending_errno w_1150 = 1150
   \<and> fst (AppDomain_Load_3 w_1150 8192 4096) = Inr 0"
proof -
  have p: "pending_errno w_err = 5" "pending_errno w_1150 = 1150"
    by (simp_all add: pending_errno_def w_err_def w_1150_def)
  have c: "com w_err = (\<lambda>i s a. (0, NoOut))" "com w_1150 = (\<lambda>i s a. (0, NoOut))"
    by (simp_all add: w_err_def w_1150_def w0_def)
  from dispatch_error_tolerance[of w_err 8192 4096] dispatch_error_tolerance[of w_1150 8192 4096] p c
  show ?thesis by (simp add: S_OK_def)
qed

text \<open>
  C3 as stated fails for \<open>Start\<close>: with status 0 and last-error 5 (a value that
  \<open>Load_3\<close> propagates) \<open>Start\<close> reports success.
\<close>

theorem Start_ignores_every_errno:
  "pending_errno w_err = 5
   \<and> fst (ICORRuntimeHost_Start w_err 8192) = Inr ()
   \<and> fst (AppDomain_Load_3 w_err 8192 4096) = Inl (Errno 5)"
  by (simp add: ICORRuntimeHost_Start_def AppDomain_Load_3_def SyscallN_def next_errno_def
        pending_errno_def w_err_def w0_def S_OK_def)

text \<open>
  C2 at an object whose reference count is 1. The native \<open>AddRef\<close> makes the count 2
  and returns 2; \<open>IUnknown.AddRef\<close> then reads memory at address 2 instead of returning
  the count: it faults where that address is unmapped (\<open>w0\<close>) and returns the bytes
  found there where it is mapped (\<open>w_low\<close>). \<open>IUnknown.Release\<close> does the same with the
  count it gets. \<open>AppDomain.AddRef\<close> on the same object returns the count, 2.
\<close>

theorem IUnknown_AddRef_reads_through_count:
  "refs w0 8192 = 1
   \<and> fst (IUnknown_AddRef w0 8192) = Inl (Panic ''invalid memory address or nil pointer dereference'')
   \<and> refs (snd (IUnknown_AddRef w0 8192)) 8192 = 2
   \<and> fst (IUnknown_AddRef w_low 8192) = Inr 117901063
   \<and> fst (IUnknown_Release w0 8192) = Inl (Panic ''invalid memory address or nil pointer dereference'')
   \<and> fst (AppDomain_AddRef w0 8192) = 2"
  by (simp add: IUnknown_AddRef_def IUnknown_Release_def AppDomain_AddRef_def SyscallN_def
        next_errno_def load32_def w0_def w_low_def)

section \<open>The arguments of the method wrappers\<close>

lemma calls_since_append:
  "calls w' = calls w @ xs \<Longrightarrow> calls_since w w' = xs"
  by (simp add: calls_since_def)

lemma native_args_wrapper:
  assumes "\<And>r out e w1. SyscallN w i s a = ((r, out, e), w1) \<Longrightarrow>
             \<exists>cs. calls (snd (f r out e w1)) = calls w1 @ cs"
  shows "native_args w (snd (case SyscallN w i s a of ((r, out, e), w1) \<Rightarrow> f r out e w1)) = a"
proof -
  obtain r out e w1 where c: "SyscallN w i s a = ((r, out, e), w1)"
    by (rule SyscallN_cases)
  from assms[OF c] obtain cs where "calls (snd (f r out e w1)) = calls w1 @ cs" ..
  with SyscallN_calls[OF c] have "calls (snd (f r out e w1)) = calls w @ ((Slot i s, a) # cs)"
    by simp
  from calls_since_append[OF this] c show ?thesis
    by (simp add: native_args_def)
qed

lemma IUnknown_QueryInterface_calls:
  "calls (snd (IUnknown_QueryInterface w obj riid p)) =
     calls w @ [(Slot ''IUnknown'' ''QueryInterface'', [Val obj, InGuid riid, p])]"
proof -
  obtain r out e w1 where c: "SyscallN w ''IUnknown'' ''QueryInterface'' [Val obj, InGuid riid, p] = ((r, out, e), w1)"
    by (rule SyscallN_cases)
  from SyscallN_calls[OF c] c show ?thesis
    by (simp add: IUnknown_QueryInterface_def)
qed

lemma IUnknown_QueryInterface_args:
  "native_args w (snd (IUnknown_QueryInterface w obj riid p)) = [Val obj, InGuid riid, p]"
  unfolding IUnknown_QueryInterface_def
  by (rule native_args_wrapper) (simp split: if_splits)

lemma IUnknown_AddRef_args:
  "native_args w (snd (IUnknown_AddRef w obj)) = [Val obj]"
  unfolding IUnknown_AddRef_def
  by (rule native_args_wrapper) (simp split: if_splits option.splits)

lemma IUnknown_Release_args:
  "native_args w (snd (IUnknown_Release w obj)) = [Val obj]"
  unfolding IUnknown_Release_def
  by (rule native_args_wrapper) (simp split: if_splits option.splits)

lemma AppDomain_QueryInterface_args:
  "native_args w (snd (AppDomain_QueryInterface w obj g p)) = [Val obj, g, p]"
  unfolding AppDomain_QueryInterface_def
  by (rule native_args_wrapper) (simp split: if_splits)

lemma AppDomain_AddRef_args:
  "native_args w (snd (AppDomain_AddRef w obj)) = [Val obj]"
  unfolding AppDomain_AddRef_def
  by (rule native_args_wrapper) (simp split: if_splits)

lemma AppDomain_Release_args:
  "native_args w (snd (AppDomain_Release w obj)) = [Val obj]"
  unfolding AppDomain_Release_def
  by (rule native_args_wrapper) (simp split: if_splits)

lemma AppDomain_GetHashCode_args:
  "native_args w (snd (AppDomain_GetHashCode w obj)) = [Val obj, Val 0]"
  unfolding AppDomain_GetHashCode_def
  by (rule native_args_wrapper) (simp split: if_splits)

lemma AppDomain_GetFriendlyName_args:
  "native_args w (snd (AppDomain_GetFriendlyName w obj)) = [Val obj, OutVar ''bstrFriendlyname'', Val 0]"
  unfolding AppDomain_GetFriendlyName_def
  by (rule native_args_wrapper) (simp split: if_splits)

lemma AppDomain_Load_3_args:
  "native_args w (snd (AppDomain_Load_3 w obj raw)) = [Val obj, Val raw, OutVar ''assembly'']"
  unfolding AppDomain_Load_3_def
  by (rule native_args_wrapper) (simp split: if_splits)

lemma AppDomain_ToString_args:
  "native_args w (snd (AppDomain_ToString w obj)) = [Val obj, OutVar ''pDomain'']"
  unfolding AppDomain_ToString_def
  by (rule native_args_wrapper) (simp split: if_splits)

lemma AppDomain_GetAssemblies_args:
  "native_args w (snd (AppDomain_GetAssemblies w obj)) = [Val obj, OutVar ''safeArray'']"
  unfolding AppDomain_GetAssemblies_def
  by (rule native_args_wrapper) (simp split: if_splits)

lemma ICORRuntimeHost_QueryInterface_args:
  "native_args w (snd (ICORRuntimeHost_QueryInterface w obj riid p)) = [Val obj, InGuid riid, p]"
  unfolding ICORRuntimeHost_QueryInterface_def
  by (rule native_args_wrapper) (simp split: if_splits)

lemma ICORRuntimeHost_AddRef_args:
  "native_args w (snd (ICORRuntimeHost_AddRef w obj)) = [Val obj]"
  unfolding ICORRuntimeHost_AddRef_def
  by (rule native_args_wrapper) (simp split: if_splits)

lemma ICORRuntimeHost_Release_args:
  "native_args w (snd (ICORRuntimeHost_Release w obj)) = [Val obj]"
  unfolding ICORRuntimeHost_Release_def
  by (rule native_args_wrapper) (simp split: if_splits)

lemma ICORRuntimeHost_Start_args:
  "native_args w (snd (ICORRuntimeHost_Start w obj)) = [Val obj]"
  unfolding ICORRuntimeHost_Start_def
  by (rule native_args_wrapper) (simp split: if_splits)

lemma ICORRuntimeHost_GetDefaultDomain_args:
  "native_args w (snd (ICORRuntimeHost_GetDefaultDomain w obj)) = [Val obj, OutVar ''IUnknown'']"
  unfolding ICORRuntimeHost_GetDefaultDomain_def
  by (rule native_args_wrapper) (simp split: if_splits)

lemma ICORRuntimeHost_CreateDomain_args:
  "native_args w (snd (ICORRuntimeHost_CreateDomain w obj name)) = [Val obj, InText name, Val 0, OutVar ''iu'']"
  unfolding ICORRuntimeHost_CreateDomain_def
  by (rule native_args_wrapper) (simp add: IUnknown_QueryInterface_calls split: if_splits)

lemma ICORRuntimeHost_NextDomain_args:
  "native_args w (snd (ICORRuntimeHost_NextDomain w obj h)) = [Val obj, Val h, OutVar ''iu'']"
  unfolding ICORRuntimeHost_NextDomain_def
  by (rule native_args_wrapper) (simp add: IUnknown_QueryInterface_calls split: if_splits)

lemma ICORRuntimeHost_CloseEnum_args:
  "native_args w (snd (ICORRuntimeHost_CloseEnum w obj h)) = [Val obj, Val h]"
  unfolding ICORRuntimeHost_CloseEnum_def
  by (rule native_args_wrapper) (simp split: if_splits)

lemma ICORRuntimeHost_UnloadDomain_args:
  "native_args w (snd (ICORRuntimeHost_UnloadDomain w obj d)) = [Val obj, Val d]"
  unfolding ICORRuntimeHost_UnloadDomain_def
  by (rule native_args_wrapper) (simp split: if_splits)

lemma ICORRuntimeHost_Stop_args:
  "native_args w (snd (ICORRuntimeHost_Stop w obj)) = [Val obj]"
  unfolding ICORRuntimeHost_Stop_def
  by (rule native_args_wrapper) (simp split: if_splits)

lemma Assembly_QueryInterface_args:
  "native_args w (snd (Assembly_QueryInterface w obj g p)) = [Val obj, g, p]"
  unfolding Assembly_QueryInterface_def
  by (rule native_args_wrapper) (simp split: if_splits)

lemma Assembly_AddRef_args:
  "native_args w (snd (Assembly_AddRef w obj)) = [Val obj]"
  unfolding Assembly_AddRef_def
  by (rule native_args_wrapper) (simp split: if_splits)

lemma Assembly_Release_args:
  "native_args w (snd (Assembly_Release w obj)) = [Val obj]"
  unfolding Assembly_Release_def
  by (rule native_args_wrapper) (simp split: if_splits)

lemma Assembly_GetEntryPoint_args:
  "native_args w (snd (Assembly_GetEntryPoint w obj)) = [Val obj, OutVar ''pRetVal'']"
  unfolding Assembly_GetEntryPoint_def
  by (rule native_args_wrapper) (simp split: if_splits)

lemma Assembly_GetFullName_args:
  "native_args w (snd (Assembly_GetFullName w obj)) = [Val obj, OutVar ''pRetValBSTR'']"
  unfolding Assembly_GetFullName_def
  by (rule native_args_wrapper) (simp split: if_splits)

lemma ICORRuntimeHost_EnumDomains_args:
  "native_args w (snd (ICORRuntimeHost_EnumDomains w obj)) = [OutVar ''hEnum'']"
  unfolding ICORRuntimeHost_EnumDomains_def
  by (rule native_args_wrapper) (simp split: if_splits)

text \<open>
  C10. The argument list of the native call of every method wrapper of iunknown.go,
  appdomain.go, icorruntimehost.go and assembly.go: each begins with the address of the
  object, except that of \<open>EnumDomains\<close>, which consists of the address of the variable
  \<open>hEnum\<close> alone.
\<close>

theorem wrappers_pass_object_first:
  "native_args w (snd (IUnknown_QueryInterface w obj riid p)) = [Val obj, InGuid riid, p]
   \<and> native_args w (snd (IUnknown_AddRef w obj)) = [Val obj]
   \<and> native_args w (snd (IUnknown_Release w obj)) = [Val obj]
   \<and> native_args w (snd (AppDomain_QueryInterface w obj g p)) = [Val obj, g, p]
   \<and> native_args w (snd (AppDomain_AddRef w obj)) = [Val obj]
   \<and> native_args w (snd (AppDomain_Release w obj)) = [Val obj]
   \<and> native_args w (snd (AppDomain_GetHashCode w obj)) = [Val obj, Val 0]
   \<and> native_args w (snd (AppDomain_GetFriendlyName w obj)) = [Val obj, OutVar ''bstrFriendlyname'', Val 0]
   \<and> native_args w (snd (AppDomain_Load_3 w obj raw)) = [Val obj, Val raw, OutVar ''assembly'']
   \<and> native_args w (snd (AppDomain_ToString w obj)) = [Val obj, OutVar ''pDomain'']
   \<and> native_args w (snd (AppDomain_GetAssemblies w obj)) = [Val obj, OutVar ''safeArray'']
   \<and> native_args w (snd (ICORRuntimeHost_QueryInterface w obj riid p)) = [Val obj, InGuid riid, p]
   \<and> native_args w (snd (ICORRuntimeHost_AddRef w obj)) = [Val obj]
   \<and> native_args w (snd (ICORRuntimeHost_Release w obj)) = [Val obj]
   \<and> native_args w (snd (ICORRuntimeHost_Start w obj)) = [Val obj]
   \<and> native_args w (snd (ICORRuntimeHost_GetDefaultDomain w obj)) = [Val obj, OutVar ''IUnknown'']
   \<and> native_args w (snd (ICORRuntimeHost_CreateDomain w obj name)) = [Val obj, InText name, Val 0, OutVar ''iu'']
   \<and> native_args w (snd (ICORRuntimeHost_NextDomain w obj h)) = [Val obj, Val h, OutVar ''iu'']
   \<and> native_args w (snd (ICORRuntimeHost_CloseEnum w obj h)) = [Val obj, Val h]
   \<and> native_args w (snd (ICORRuntimeHost_UnloadDomain w obj d)) = [Val obj, Val d]
   \<and> native_args w (snd (ICORRuntimeHost_Stop w obj)) = [Val obj]
   \<and> native_args w (snd (Assembly_QueryInterface w obj g p)) = [Val obj, g, p]
   \<and> native_args w (snd (Assembly_AddRef w obj)) = [Val obj]
   \<and> native_args w (snd (Assembly_Release w obj)) = [Val obj]
   \<and> native_args w (snd (Assembly_GetEntryPoint w obj)) = [Val obj, OutVar ''pRetVal'']
   \<and> native_args w (snd (Assembly_GetFullName w obj)) = [Val obj, OutVar ''pRetValBSTR'']
   \<and> native_args w (snd (ICORRuntimeHost_EnumDomains w obj)) = [OutVar ''hEnum'']"
  by (simp only: IUnknown_QueryInterface_args IUnknown_AddRef_args IUnknown_Release_args AppDomain_QueryInterface_args AppDomain_AddRef_args AppDomain_Release_args AppDomain_GetHashCode_args AppDomain_GetFriendlyName_args AppDomain_Load_3_args AppDomain_ToString_args AppDomain_GetAssemblies_args ICORRuntimeHost_QueryInterface_args ICORRuntimeHost_AddRef_args ICORRuntimeHost_Release_args ICORRuntimeHost_Start_args ICORRuntimeHost_GetDefaultDomain_args ICORRuntimeHost_CreateDomain_args ICORRuntimeHost_NextDomain_args ICORRuntimeHost_CloseEnum_args ICORRuntimeHost_UnloadDomain_args ICORRuntimeHost_Stop_args Assembly_QueryInterface_args Assembly_AddRef_args Assembly_Release_args Assembly_GetEntryPoint_args Assembly_GetFullName_args ICORRuntimeHost_EnumDomains_args simp_thms)

section \<open>The order of the stages\<close>

lemma rank_completes: "r \<noteq> Stop \<Longrightarrow> rank (completes r) = Suc (rank (prerequisite r))"
  by (cases r) simp_all

text \<open>
  C7. In the state machine of the spec, an operation of the \<open>EntryResolved\<close> stage
  (resolving the declared entry point, or a type name and method name) attempted at any
  stage before \<open>AssemblyLoaded\<close> fails with \<open>InvalidState\<close>, whatever its arguments and
  whatever the native side would answer; and an operation other than the teardown that
  succeeds leaves the stage as it is or moves it to the next one, never backwards.
\<close>

theorem stages_in_order:
  "(rank s < rank AssemblyLoaded \<longrightarrow>
      advance s ResolveEntryPoint a = Inl InvalidState
      \<and> advance s (ResolveMethod t m) a = Inl InvalidState)
   \<and> (advance s r a = Inr s' \<and> r \<noteq> Stop \<longrightarrow> s' = s \<or> rank s' = Suc (rank s))"
proof (intro conjI impI)
  assume "rank s < rank AssemblyLoaded"
  then show "advance s ResolveEntryPoint a = Inl InvalidState"
    and "advance s (ResolveMethod t m) a = Inl InvalidState"
    by (simp_all add: advance_def)
next
  assume h: "advance s r a = Inr s' \<and> r \<noteq> Stop"
  then have ns: "r \<noteq> Stop" and p: "\<not> rank s < rank (prerequisite r)"
    by (auto simp: advance_def split: if_splits)
  show "s' = s \<or> rank s' = Suc (rank s)"
  proof (cases "rank s < rank (completes r)")
    case True
    with h have "s' = completes r" by (auto simp: advance_def split: if_splits)
    with True p rank_completes[OF ns] show ?thesis by simp
  next
    case False
    with h show ?thesis by (auto simp: advance_def split: if_splits)
  qed
qed

text \<open>The theorem at the stage \<open>DomainReady\<close>, with a native side that accepts everything.\<close>

theorem stages_in_order_witness:
  "rank DomainReady < rank AssemblyLoaded
   \<and> advance DomainReady ResolveEntryPoint \<lparr>factory_ok = True, loadable = True, status = 0\<rparr> = Inl InvalidState
   \<and> advance DomainReady (ResolveMethod ''TestDLL.HelloWorld'' ''SayHello'')
        \<lparr>factory_ok = True, loadable = True, status = 0\<rparr> = Inl InvalidState
   \<and> advance DomainReady (LoadFromPath ''TestDLL.dll'') \<lparr>factory_ok = True, loadable = True, status = 0\<rparr>
        = Inr AssemblyLoaded
   \<and> rank AssemblyLoaded = Suc (rank DomainReady)"
proof -
  let ?a = "\<lparr>factory_ok = True, loadable = True, status = 0\<rparr>"
  have l: "advance DomainReady (LoadFromPath ''TestDLL.dll'') ?a = Inr AssemblyLoaded"
    by (simp add: advance_def)
  from stages_in_order[of DomainReady ?a "''TestDLL.HelloWorld''" "''SayHello''" "LoadFromPath ''TestDLL.dll''" AssemblyLoaded] l
  show ?thesis by simp
qed

section \<open>Listing and searching the assemblies of a domain\<close>

lemma next_errno_eq: "next_errno w = (pending_errno w, w\<lparr>errnos := tl (errnos w)\<rparr>)"
  by (cases "errnos w") (simp_all add: next_errno_def pending_errno_def)

lemma Call_unchanged:
  assumes "native_proc (w\<lparr>calls := calls w @ [(Proc dll name, args)]\<rparr>) name args
             = ((r, out), w\<lparr>calls := calls w @ [(Proc dll name, args)]\<rparr>)"
  shows "Call w dll name args = ((r, out, pending_errno w), after_call w (Proc dll name, args))"
  using assms by (simp add: Call_def next_errno_eq after_call_def pending_errno_def)

lemma SyscallN_unchanged:
  assumes "slot \<noteq> ''AddRef''" "slot \<noteq> ''Release''"
  shows "SyscallN w iface slot args =
           ((fst (com w iface slot args), snd (com w iface slot args), pending_errno w),
            after_call w (Slot iface slot, args))"
  by (simp add: SyscallN_def native_slot_com[OF assms] next_errno_eq after_call_def pending_errno_def
        split: prod.splits)

lemma after_call_fields [simp]:
  "arrays (after_call w c) = arrays w" "mem (after_call w c) = mem w"
  "com (after_call w c) = com w" "bstrs (after_call w c) = bstrs w"
  "calls (after_call w c) = calls w @ [c]" "errnos (after_call w c) = tl (errnos w)"
  "errtext (after_call w c) = errtext w"
  by (simp_all add: after_call_def)

lemma quiet_after_call [simp]: "quiet w \<Longrightarrow> quiet (after_call w c)"
  by (cases "errnos w") (simp_all add: quiet_def)

lemma quiet_pending [simp]: "quiet w \<Longrightarrow> pending_errno w = 0"
  by (cases "errnos w") (simp_all add: quiet_def pending_errno_def)

lemma sint_of_nat_32: "j < 2 ^ 31 \<Longrightarrow> sint (of_nat j :: 32 word) = int j"
  by (simp add: signed_of_nat signed_take_bit_int_eq_self)

lemma unat_of_nat_32: "j < 2 ^ 32 \<Longrightarrow> unat (of_nat j :: 32 word) = j"
  by (simp add: unat_of_nat)

lemma le_of_nat_32: "j < 2 ^ 32 \<Longrightarrow> k < 2 ^ 32 \<Longrightarrow> (of_nat j :: 32 word) \<le> of_nat k \<longleftrightarrow> j \<le> k"
  by (simp add: word_le_nat_alt unat_of_nat_32)

lemma SafeArrayGetElement_in_range:
  assumes "arrays w sa = Some d" "lLbound (rgsabound d) = 0" "j < unat (cElements (rgsabound d))"
    "unat (cElements (rgsabound d)) \<le> 2 ^ 31" "pending_errno w = 0"
  shows "SafeArrayGetElement w sa (of_nat j) =
           (Inr (read_le (mem w) (pvData d + j * unat (cbElements d)) (unat (cbElements d))),
            after_call w (Proc ''OleAut32.dll'' ''SafeArrayGetElement'', [Val sa, InIndex (of_nat j), OutVar ''ret'']))"
proof -
  from assms have j: "j < 2 ^ 31" by simp
  have u: "uint (cElements (rgsabound d)) = int (unat (cElements (rgsabound d)))" by simp
  let ?c = "(Proc ''OleAut32.dll'' ''SafeArrayGetElement'', [Val sa, InIndex (of_nat j), OutVar ''ret''])"
  have "native_proc (w\<lparr>calls := calls w @ [?c]\<rparr>) ''SafeArrayGetElement'' [Val sa, InIndex (of_nat j), OutVar ''ret'']
      = ((0, OutWord (read_le (mem w) (pvData d + j * unat (cbElements d)) (unat (cbElements d)))),
         w\<lparr>calls := calls w @ [?c]\<rparr>)"
    using assms(1,2,3) by (simp add: os_SafeArrayGetElement_def sint_of_nat_32[OF j] u del: of_nat_unat)
  from Call_unchanged[OF this] assms(5) show ?thesis
    by (simp add: SafeArrayGetElement_def S_OK_def)
qed

lemma SafeArrayGetDim_eval:
  assumes "arrays w sa = Some d" "pending_errno w = 0"
  shows "SafeArrayGetDim w sa =
           (Inr (of_nat (unat (cDims d))), after_call w (Proc ''OleAut32.dll'' ''SafeArrayGetDim'', [Val sa]))"
proof -
  let ?c = "(Proc ''OleAut32.dll'' ''SafeArrayGetDim'', [Val sa])"
  have "native_proc (w\<lparr>calls := calls w @ [?c]\<rparr>) ''SafeArrayGetDim'' [Val sa]
      = ((unat (cDims d), NoOut), w\<lparr>calls := calls w @ [?c]\<rparr>)"
    using assms(1) by (simp add: os_SafeArrayGetDim_def)
  from Call_unchanged[OF this] assms(2) show ?thesis
    by (simp add: SafeArrayGetDim_def)
qed

lemma SafeArrayGetLBound_eval:
  assumes "arrays w sa = Some d" "cDims d = 1" "pending_errno w = 0"
  shows "SafeArrayGetLBound w sa 1 =
           (Inr (lLbound (rgsabound d)),
            after_call w (Proc ''OleAut32.dll'' ''SafeArrayGetLBound'', [Val sa, Val 1, OutVar ''plLbound'']))"
proof -
  let ?c = "(Proc ''OleAut32.dll'' ''SafeArrayGetLBound'', [Val sa, Val 1, OutVar ''plLbound''])"
  have "native_proc (w\<lparr>calls := calls w @ [?c]\<rparr>) ''SafeArrayGetLBound'' [Val sa, Val 1, OutVar ''plLbound'']
      = ((0, OutWord (unat (lLbound (rgsabound d)))), w\<lparr>calls := calls w @ [?c]\<rparr>)"
    using assms(1,2) by (simp add: os_SafeArrayGetLBound_def)
  from Call_unchanged[OF this] assms(3) show ?thesis
    by (simp add: SafeArrayGetLBound_def S_OK_def)
qed

lemma SafeArrayGetUBound_eval:
  assumes "arrays w sa = Some d" "cDims d = 1" "pending_errno w = 0"
  shows "SafeArrayGetUBound w sa 1 =
           (Inr (lLbound (rgsabound d) + cElements (rgsabound d) - 1),
            after_call w (Proc ''OleAut32.dll'' ''SafeArrayGetUBound'', [Val sa, Val 1, OutVar ''plUbound'']))"
proof -
  let ?c = "(Proc ''OleAut32.dll'' ''SafeArrayGetUBound'', [Val sa, Val 1, OutVar ''plUbound''])"
  have "native_proc (w\<lparr>calls := calls w @ [?c]\<rparr>) ''SafeArrayGetUBound'' [Val sa, Val 1, OutVar ''plUbound'']
      = ((0, OutWord (unat (lLbound (rgsabound d) + cElements (rgsabound d) - 1))), w\<lparr>calls := calls w @ [?c]\<rparr>)"
    using assms(1,2) by (simp add: os_SafeArrayGetUBound_def)
  from Call_unchanged[OF this] assms(3) show ?thesis
    by (simp add: SafeArrayGetUBound_def S_OK_def)
qed

lemma AppDomain_GetAssemblies_eval:
  assumes "com w ''AppDomain'' ''GetAssemblies'' [Val obj, OutVar ''safeArray''] = (S_OK, OutWord sa)"
    "pending_errno w = 0"
  shows "AppDomain_GetAssemblies w obj =
           (Inr sa, after_call w (Slot ''AppDomain'' ''GetAssemblies'', [Val obj, OutVar ''safeArray'']))"
proof -
  have "SyscallN w ''AppDomain'' ''GetAssemblies'' [Val obj, OutVar ''safeArray''] =
      ((S_OK, OutWord sa, 0), after_call w (Slot ''AppDomain'' ''GetAssemblies'', [Val obj, OutVar ''safeArray'']))"
    using assms by (subst SyscallN_unchanged) simp_all
  then show ?thesis by (simp add: AppDomain_GetAssemblies_def)
qed

lemma unat_pred_32:
  fixes x :: "32 word"
  assumes "0 < unat x"
  shows "unat (x - 1) = unat x - 1"
proof -
  from assms have "x \<noteq> 0" by auto
  then show ?thesis by (rule unat_minus_one)
qed

lemma ListAssemblies_loop_elements:
  assumes "arrays w sa = Some d" "lLbound (rgsabound d) = 0"
    "0 < unat (cElements (rgsabound d))" "unat (cElements (rgsabound d)) \<le> 2 ^ 31"
    "quiet w" "j \<le> unat (cElements (rgsabound d))"
  shows "\<exists>w'. ListAssemblies_loop w sa (of_nat j) (cElements (rgsabound d) - 1) acc =
            Some (Inr (acc @ map (\<lambda>k. read_le (mem w) (pvData d + k * unat (cbElements d)) (unat (cbElements d)))
                              [j ..< unat (cElements (rgsabound d))]), w')
          \<and> arrays w' = arrays w \<and> mem w' = mem w \<and> com w' = com w \<and> bstrs w' = bstrs w \<and> quiet w'"
  using assms
proof (induction "unat (cElements (rgsabound d)) - j" arbitrary: j w acc)
  case 0
  let ?n = "unat (cElements (rgsabound d))"
  from 0 have j: "j = ?n" by simp
  have ub: "unat (cElements (rgsabound d) - 1) = ?n - 1"
    using 0(4) by (rule unat_pred_32)
  have "\<not> (of_nat j :: 32 word) \<le> cElements (rgsabound d) - 1"
    using 0(4) by (simp add: j word_le_nat_alt ub)
  then show ?case
    by (subst ListAssemblies_loop.simps) (simp add: j 0)
next
  case (Suc m)
  let ?n = "unat (cElements (rgsabound d))"
  let ?el = "\<lambda>k. read_le (mem w) (pvData d + k * unat (cbElements d)) (unat (cbElements d))"
  let ?w1 = "after_call w (Proc ''OleAut32.dll'' ''SafeArrayGetElement'', [Val sa, InIndex (of_nat j), OutVar ''ret''])"
  from Suc(2) have j: "j < ?n" by simp
  with Suc(6) have j32: "j < 2 ^ 32" by simp
  have ub: "unat (cElements (rgsabound d) - 1) = ?n - 1"
    using Suc(5) by (rule unat_pred_32)
  have le: "(of_nat j :: 32 word) \<le> cElements (rgsabound d) - 1"
    using j j32 by (simp add: word_le_nat_alt ub unat_of_nat_32)
  have g: "SafeArrayGetElement w sa (of_nat j) = (Inr (?el j), ?w1)"
    using Suc(3,4) j Suc(6,7) by (intro SafeArrayGetElement_in_range) simp_all
  have m: "m = ?n - Suc j" using Suc(2) by simp
  have "\<exists>w'. ListAssemblies_loop ?w1 sa (of_nat (Suc j)) (cElements (rgsabound d) - 1) (acc @ [?el j]) =
            Some (Inr ((acc @ [?el j]) @ map (\<lambda>k. read_le (mem ?w1) (pvData d + k * unat (cbElements d)) (unat (cbElements d)))
                              [Suc j ..< ?n]), w')
          \<and> arrays w' = arrays ?w1 \<and> mem w' = mem ?w1 \<and> com w' = com ?w1 \<and> bstrs w' = bstrs ?w1 \<and> quiet w'"
    using Suc(3,4,5,6,7) j by (intro Suc(1)[OF m]) simp_all
  then obtain w' where r: "ListAssemblies_loop ?w1 sa (of_nat (Suc j)) (cElements (rgsabound d) - 1) (acc @ [?el j]) =
            Some (Inr ((acc @ [?el j]) @ map ?el [Suc j ..< ?n]), w')"
     and f: "arrays w' = arrays w" "mem w' = mem w" "com w' = com w" "bstrs w' = bstrs w" "quiet w'"
    by auto
  have s: "(of_nat j :: 32 word) + 1 = of_nat (Suc j)" by simp
  have l: "[j ..< ?n] = j # [Suc j ..< ?n]" using j by (simp add: upt_conv_Cons)
  have "ListAssemblies_loop w sa (of_nat j) (cElements (rgsabound d) - 1) acc =
          Some (Inr (acc @ map ?el [j ..< ?n]), w')"
    by (subst ListAssemblies_loop.simps)
       (simp only: le g r[folded s] l if_True prod.case sum.case, simp)
  with f show ?case by blast
qed

lemma ListAssemblies_ok:
  assumes "com w ''AppDomain'' ''GetAssemblies'' [Val obj, OutVar ''safeArray''] = (S_OK, OutWord sa)"
    "arrays w sa = Some d" "cDims d = 1" "lLbound (rgsabound d) = 0"
    "0 < unat (cElements (rgsabound d))" "unat (cElements (rgsabound d)) \<le> 2 ^ 31" "quiet w"
  shows "\<exists>w'. ListAssemblies w obj = Some (Inr (array_elements w d), w')
           \<and> com w' = com w \<and> bstrs w' = bstrs w \<and> quiet w'"
proof -
  let ?w1 = "after_call w (Slot ''AppDomain'' ''GetAssemblies'', [Val obj, OutVar ''safeArray''])"
  let ?w2 = "after_call ?w1 (Proc ''OleAut32.dll'' ''SafeArrayGetDim'', [Val sa])"
  let ?w3 = "after_call ?w2 (Proc ''OleAut32.dll'' ''SafeArrayGetLBound'', [Val sa, Val (Suc 0), OutVar ''plLbound''])"
  let ?w4 = "after_call ?w3 (Proc ''OleAut32.dll'' ''SafeArrayGetUBound'', [Val sa, Val (Suc 0), OutVar ''plUbound''])"
  have g: "AppDomain_GetAssemblies w obj = (Inr sa, ?w1)"
    using assms(1,7) by (intro AppDomain_GetAssemblies_eval) simp_all
  have "SafeArrayGetDim ?w1 sa = (Inr (of_nat (unat (cDims d))), ?w2)"
    using assms(2,7) by (intro SafeArrayGetDim_eval) simp_all
  then have dm: "SafeArrayGetDim ?w1 sa = (Inr 1, ?w2)" by (simp add: assms(3))
  have lb: "SafeArrayGetLBound ?w2 sa 1 = (Inr 0, ?w3)"
    using SafeArrayGetLBound_eval[of ?w2 sa d] assms(2,3,4,7) by simp
  have ub: "SafeArrayGetUBound ?w3 sa 1 = (Inr (cElements (rgsabound d) - 1), ?w4)"
    using SafeArrayGetUBound_eval[of ?w3 sa d] assms(2,3,4,7) by simp
  have "\<exists>w'. ListAssemblies_loop ?w4 sa (of_nat 0) (cElements (rgsabound d) - 1) [] =
            Some (Inr ([] @ map (\<lambda>k. read_le (mem ?w4) (pvData d + k * unat (cbElements d)) (unat (cbElements d)))
                              [0 ..< unat (cElements (rgsabound d))]), w')
          \<and> arrays w' = arrays ?w4 \<and> mem w' = mem ?w4 \<and> com w' = com ?w4 \<and> bstrs w' = bstrs ?w4 \<and> quiet w'"
    using assms(2,4,5,6,7) by (intro ListAssemblies_loop_elements) simp_all
  then obtain w' where l: "ListAssemblies_loop ?w4 sa 0 (cElements (rgsabound d) - 1) [] =
            Some (Inr (array_elements w d), w')"
    and f: "com w' = com w" "bstrs w' = bstrs w" "quiet w'"
    by (auto simp: array_elements_def)
  have "ListAssemblies w obj = Some (Inr (array_elements w d), w')"
    by (simp add: ListAssemblies_def g dm lb ub l)
  with f show ?thesis by blast
qed

lemma Assembly_GetFullName_eval:
  "Assembly_GetFullName w a =
     (if pending_errno w \<noteq> 0
      then Inl (Errorf_s ''the Assembly::GetFullName method returned an error''
              (errtext w (pending_errno w)))
      else full_name w a,
      after_call w (Slot ''Assembly'' ''get_FullName'', [Val a, OutVar ''pRetValBSTR'']))"
proof -
  have "SyscallN w ''Assembly'' ''get_FullName'' [Val a, OutVar ''pRetValBSTR''] =
      ((fst (com w ''Assembly'' ''get_FullName'' [Val a, OutVar ''pRetValBSTR'']),
        snd (com w ''Assembly'' ''get_FullName'' [Val a, OutVar ''pRetValBSTR'']), pending_errno w),
       after_call w (Slot ''Assembly'' ''get_FullName'', [Val a, OutVar ''pRetValBSTR'']))"
    by (rule SyscallN_unchanged) simp_all
  then show ?thesis
    by (simp add: Assembly_GetFullName_def full_name_def ReadUnicodeStr_def split: prod.splits)
qed

lemma full_name_cong:
  "com w' = com w \<Longrightarrow> bstrs w' = bstrs w \<Longrightarrow> full_name w' a = full_name w a"
  by (simp add: full_name_def ReadUnicodeStr_def split: prod.splits)

lemma name_reads_quiet:
  "quiet w \<Longrightarrow> name_reads w asmb = map (\<lambda>a. (a, full_name w a)) asmb"
proof (induction asmb arbitrary: w)
  case Nil
  then show ?case by simp
next
  case (Cons a asmb)
  let ?w1 = "after_call w (Slot ''Assembly'' ''get_FullName'', [Val a, OutVar ''pRetValBSTR''])"
  from Cons.prems have q: "quiet ?w1" by simp
  have "\<And>b. full_name ?w1 b = full_name w b" by (rule full_name_cong) simp_all
  with Cons.IH[OF q] Cons.prems show ?case
    by (simp add: Assembly_GetFullName_eval)
qed

lemma Load_2_scan_first_match:
  "fst (Load_2_scan L w s asmb) = first_match L s (name_reads w asmb)"
proof (induction asmb arbitrary: w)
  case Nil
  then show ?case by simp
next
  case (Cons a asmb)
  obtain r w1 where g: "Assembly_GetFullName w a = (r, w1)" by (cases "Assembly_GetFullName w a")
  show ?case
  proof (cases r)
    case (Inl e)
    with g Cons.IH[of w1] show ?thesis by simp
  next
    case (Inr name)
    with g Cons.IH[of w1] show ?thesis by simp
  qed
qed

lemma Load_2_listed:
  assumes "ListAssemblies w obj = Some (Inr asmb, w1)"
  shows "map_option fst (Load_2 L w obj s) = Some (first_match L s (name_reads w1 asmb))"
  using assms by (simp add: Load_2_def Load_2_scan_first_match)

lemma Load_2_eval:
  assumes "com w ''AppDomain'' ''GetAssemblies'' [Val obj, OutVar ''safeArray''] = (S_OK, OutWord sa)"
    "arrays w sa = Some d" "cDims d = 1" "lLbound (rgsabound d) = 0"
    "0 < unat (cElements (rgsabound d))" "unat (cElements (rgsabound d)) \<le> 2 ^ 31" "quiet w"
  shows "map_option fst (Load_2 L w obj s) =
           Some (first_match L s (map (\<lambda>a. (a, full_name w a)) (array_elements w d)))"
proof -
  from ListAssemblies_ok[OF assms] obtain w' where
    l: "ListAssemblies w obj = Some (Inr (array_elements w d), w')"
    and f: "com w' = com w" "bstrs w' = bstrs w" "quiet w'" by blast
  have "\<And>b. full_name w' b = full_name w b" using f(1,2) by (rule full_name_cong)
  with Load_2_listed[OF l, of L s] name_reads_quiet[OF f(3)] show ?thesis by simp
qed

lemma read_le_unfold:
  "0 < n \<Longrightarrow> read_le m a n = (case m a of None \<Rightarrow> 0 | Some b \<Rightarrow> unat b) + 256 * read_le m (a + 1) (n - 1)"
  by (cases n) simp_all

lemma w_dom_elements: "array_elements (w_dom ok) d_dom = [12288, 12544]"
  by (simp add: array_elements_def w_dom_def d_dom_def write_bytes_def read_le_unfold upt_rec)


lemma w_dom_names:
  "full_name (w_dom True) 12288 = Inr ''mscorlib, Version=4.0.0.0, Culture=neutral, PublicKeyToken=b77a5c561934e089''"
  "full_name (w_dom False) 12288 = Inl (Errorf ''the Assembly::GetFullName method returned a non-zero HRESULT'' E_FAIL)"
  "full_name (w_dom ok) 12544 = Inr ''TestDLL, Version=1.0.0.0, Culture=neutral, PublicKeyToken=null''"
  by (simp_all add: full_name_def w_dom_def com_dom_def S_OK_def E_FAIL_def ReadUnicodeStr_def)

lemma first_match_none:
  "list_all (\<lambda>x. \<not> name_matches L s x) xs \<Longrightarrow> first_match L s xs = Inl (NotFound s)"
  by (induction L s xs rule: first_match.induct) simp_all

lemma first_match_found:
  "first_match L s xs = Inr a \<Longrightarrow>
     \<exists>ys n zs. xs = ys @ (a, Inr n) # zs \<and> HasPrefix (L n) (L s) \<and> list_all (\<lambda>x. \<not> name_matches L s x) ys"
proof (induction L s xs rule: first_match.induct)
  case (1 L s)
  then show ?case by simp
next
  case (2 L s b name rest)
  show ?case
  proof (cases "HasPrefix (L name) (L s)")
    case True
    with 2 have "b = a" by simp
    with True have "(b, Inr name) # rest = [] @ (a, Inr name) # rest \<and> HasPrefix (L name) (L s)
        \<and> list_all (\<lambda>x. \<not> name_matches L s x) []" by simp
    then show ?thesis by blast
  next
    case False
    with 2 obtain ys n zs where "rest = ys @ (a, Inr n) # zs" "HasPrefix (L n) (L s)"
      "list_all (\<lambda>x. \<not> name_matches L s x) ys" by auto
    with False have "(b, Inr name) # rest = ((b, Inr name) # ys) @ (a, Inr n) # zs \<and> HasPrefix (L n) (L s)
        \<and> list_all (\<lambda>x. \<not> name_matches L s x) ((b, Inr name) # ys)" by simp
    then show ?thesis by blast
  qed
next
  case (3 L s b e rest)
  then obtain ys n zs where "rest = ys @ (a, Inr n) # zs" "HasPrefix (L n) (L s)"
      "list_all (\<lambda>x. \<not> name_matches L s x) ys" by auto
  then have "(b, Inl e) # rest = ((b, Inl e) # ys) @ (a, Inr n) # zs \<and> HasPrefix (L n) (L s)
        \<and> list_all (\<lambda>x. \<not> name_matches L s x) ((b, Inl e) # ys)" by simp
  then show ?case by blast
qed

text \<open>
  C4. \<open>Load_2\<close>, given a domain and a search string, lists the assemblies of the domain
  and scans them in the order of the list. For an array of the domain with one dimension,
  lower bound 0 and between 1 and 2^31 elements, and native calls that leave no
  last-error value, the list is the elements of the array in the order of the array (first
  part). Whatever the list is, the result is that of the search as the spec words it over
  the names read in that order (second part): when an entry is returned, its name,
  case-folded, starts with the case-folded search string and no entry before it matches
  (third part); when no entry matches, the result is the not-found error (fourth part).
\<close>

theorem Load_2_returns_first_match:
  "(com w ''AppDomain'' ''GetAssemblies'' [Val obj, OutVar ''safeArray''] = (S_OK, OutWord sa)
      \<and> arrays w sa = Some d \<and> cDims d = 1 \<and> lLbound (rgsabound d) = 0
      \<and> 0 < unat (cElements (rgsabound d)) \<and> unat (cElements (rgsabound d)) \<le> 2 ^ 31 \<and> quiet w
    \<longrightarrow> map_option fst (ListAssemblies w obj) = Some (Inr (array_elements w d))
        \<and> map_option fst (Load_2 ToLower w obj s) =
            Some (first_match ToLower s (map (\<lambda>a. (a, full_name w a)) (array_elements w d))))
   \<and> (ListAssemblies w obj = Some (Inr asmb, w1) \<longrightarrow>
        map_option fst (Load_2 ToLower w obj s) = Some (first_match ToLower s (name_reads w1 asmb)))
   \<and> (ListAssemblies w obj = Some (Inr asmb, w1)
        \<and> map_option fst (Load_2 ToLower w obj s) = Some (Inr a) \<longrightarrow>
        (\<exists>ys n zs. name_reads w1 asmb = ys @ (a, Inr n) # zs \<and> HasPrefix (ToLower n) (ToLower s)
            \<and> list_all (\<lambda>x. \<not> name_matches ToLower s x) ys))
   \<and> (ListAssemblies w obj = Some (Inr asmb, w1)
        \<and> list_all (\<lambda>x. \<not> name_matches ToLower s x) (name_reads w1 asmb) \<longrightarrow>
        map_option fst (Load_2 ToLower w obj s) = Some (Inl (NotFound s)))"
proof (intro conjI impI)
  assume h: "com w ''AppDomain'' ''GetAssemblies'' [Val obj, OutVar ''safeArray''] = (S_OK, OutWord sa)
      \<and> arrays w sa = Some d \<and> cDims d = 1 \<and> lLbound (rgsabound d) = 0
      \<and> 0 < unat (cElements (rgsabound d)) \<and> unat (cElements (rgsabound d)) \<le> 2 ^ 31 \<and> quiet w"
  then have g: "com w ''AppDomain'' ''GetAssemblies'' [Val obj, OutVar ''safeArray''] = (S_OK, OutWord sa)"
    and a: "arrays w sa = Some d" and c: "cDims d = 1" and l: "lLbound (rgsabound d) = 0"
    and n: "0 < unat (cElements (rgsabound d))" and m: "unat (cElements (rgsabound d)) \<le> 2 ^ 31"
    and q: "quiet w"
    by simp_all
  from ListAssemblies_ok[OF g a c l n m q]
  show "map_option fst (ListAssemblies w obj) = Some (Inr (array_elements w d))" by auto
  from Load_2_eval[OF g a c l n m q]
  show "map_option fst (Load_2 ToLower w obj s) =
            Some (first_match ToLower s (map (\<lambda>a. (a, full_name w a)) (array_elements w d)))" .
next
  assume "ListAssemblies w obj = Some (Inr asmb, w1)"
  then show "map_option fst (Load_2 ToLower w obj s) = Some (first_match ToLower s (name_reads w1 asmb))"
    by (rule Load_2_listed)
next
  assume h: "ListAssemblies w obj = Some (Inr asmb, w1) \<and> map_option fst (Load_2 ToLower w obj s) = Some (Inr a)"
  with Load_2_listed[of w obj asmb w1 ToLower s] have "first_match ToLower s (name_reads w1 asmb) = Inr a"
    by simp
  then show "\<exists>ys n zs. name_reads w1 asmb = ys @ (a, Inr n) # zs \<and> HasPrefix (ToLower n) (ToLower s)
            \<and> list_all (\<lambda>x. \<not> name_matches ToLower s x) ys"
    by (rule first_match_found)
next
  assume h: "ListAssemblies w obj = Some (Inr asmb, w1)
        \<and> list_all (\<lambda>x. \<not> name_matches ToLower s x) (name_reads w1 asmb)"
  with Load_2_listed[of w obj asmb w1 ToLower s] first_match_none[of ToLower s "name_reads w1 asmb"]
  show "map_option fst (Load_2 ToLower w obj s) = Some (Inl (NotFound s))" by simp
qed

lemma w_dom_wf:
  "com (w_dom ok) ''AppDomain'' ''GetAssemblies'' [Val 8192, OutVar ''safeArray''] = (S_OK, OutWord 16384)
      \<and> arrays (w_dom ok) 16384 = Some d_dom \<and> cDims d_dom = 1 \<and> lLbound (rgsabound d_dom) = 0
      \<and> 0 < unat (cElements (rgsabound d_dom)) \<and> unat (cElements (rgsabound d_dom)) \<le> 2 ^ 31
      \<and> quiet (w_dom ok)"
  by (simp add: w_dom_def d_dom_def com_dom_def S_OK_def quiet_def w0_def)

text \<open>
  The theorem for the domain of \<open>w_dom True\<close>: searching \<open>testdll\<close> returns the second
  entry, named \<open>TestDLL, Version=1.0.0.0, ...\<close>; searching \<open>nosuch\<close> finds nothing.
\<close>

theorem Load_2_returns_first_match_witness:
  "com (w_dom True) ''AppDomain'' ''GetAssemblies'' [Val 8192, OutVar ''safeArray''] = (S_OK, OutWord 16384)
   \<and> arrays (w_dom True) 16384 = Some d_dom \<and> cDims d_dom = 1 \<and> lLbound (rgsabound d_dom) = 0
   \<and> 0 < unat (cElements (rgsabound d_dom)) \<and> unat (cElements (rgsabound d_dom)) \<le> 2 ^ 31
   \<and> quiet (w_dom True)
   \<and> map_option fst (ListAssemblies (w_dom True) 8192) = Some (Inr [12288, 12544])
   \<and> full_name (w_dom True) 12288 = Inr ''mscorlib, Version=4.0.0.0, Culture=neutral, PublicKeyToken=b77a5c561934e089''
   \<and> full_name (w_dom True) 12544 = Inr ''TestDLL, Version=1.0.0.0, Culture=neutral, PublicKeyToken=null''
   \<and> map_option fst (Load_2 ToLower_ascii (w_dom True) 8192 ''testdll'') = Some (Inr 12544)
   \<and> map_option fst (Load_2 ToLower_ascii (w_dom True) 8192 ''nosuch'') = Some (Inl (NotFound ''nosuch''))"
proof -
  note wf = w_dom_wf[of True]
  note t1 = Load_2_returns_first_match[of "w_dom True" 8192 16384 d_dom ToLower_ascii "''testdll''"]
  note t2 = Load_2_returns_first_match[of "w_dom True" 8192 16384 d_dom ToLower_ascii "''nosuch''"]
  from t1 wf have l: "map_option fst (ListAssemblies (w_dom True) 8192) = Some (Inr [12288, 12544])"
    by (simp add: w_dom_elements)
  from t1 wf have a: "map_option fst (Load_2 ToLower_ascii (w_dom True) 8192 ''testdll'') = Some (Inr 12544)"
    by (simp add: w_dom_elements w_dom_names ToLower_ascii_def lower_char_def HasPrefix_def)
  from t2 wf have b: "map_option fst (Load_2 ToLower_ascii (w_dom True) 8192 ''nosuch'') = Some (Inl (NotFound ''nosuch''))"
    by (simp add: w_dom_elements w_dom_names ToLower_ascii_def lower_char_def HasPrefix_def)
  from wf l a b w_dom_names show ?thesis by simp
qed

section \<open>Failures while reading a name\<close>











end
